theory Spec2Isabelle
  imports Main "HOL-Library.Word" "HOL-Library.Sublist"
begin

section \<open>The mysql processor of go-guerrilla (backends/p\_mysql.go)\<close>

text \<open>
  A shallow embedding of \<^verbatim>\<open>backends/p_mysql.go\<close>. Go strings are byte sequences and
  \<^verbatim>\<open>len\<close> counts bytes, so a Go string is a \<^typ>\<open>string\<close> here. A Go function that
  can panic returns an \<open>exit\<close>: either the value it returns or the panic that unwinds
  from it. Everything the processor mutates (the statement cache, the store behind the
  \<^verbatim>\<open>*sql.DB\<close> handle, the log) is threaded through as a \<open>pstate\<close>.
\<close>

subsection \<open>Data\<close>

type_synonym byte = "8 word"

text \<open>\<^verbatim>\<open>mail.Address\<close>: the processor reads the field \<^verbatim>\<open>User\<close> and calls \<^verbatim>\<open>String()\<close>.\<close>

record address =
  User :: string
  Host :: string

text \<open>
  A value stored in \<^verbatim>\<open>e.Values\<close> (a \<^verbatim>\<open>map[string]interface{}\<close>). The processor only asks
  whether a value is a \<^verbatim>\<open>*compressor\<close>; the compressor type is declared in another file, and
  the only thing done with one is to call its \<^verbatim>\<open>String()\<close>, so a non-nil \<^verbatim>\<open>*compressor\<close>
  is represented by the text it renders to, and the nil pointer by \<open>None\<close>.
\<close>

datatype any = CompressorPtr "string option" | OtherValue

text \<open>
  \<^verbatim>\<open>mail.Envelope\<close>, with the fields the processor reads, and \<^verbatim>\<open>QueuedId\<close>, which it
  writes.
\<close>

record envelope =
  RemoteIP :: string
  MailFrom :: address
  RcptTo :: "address list"
  Data :: string
  Subject :: string
  TLS :: bool
  Header :: "string \<rightharpoonup> string list"
  Values :: "string \<rightharpoonup> any"
  Hashes :: "string list"
  DeliveryHeader :: string
  QueuedId :: string

record MysqlProcessorConfig =
  MysqlTable :: string
  MysqlDB :: string
  MysqlHost :: string
  MysqlPass :: string
  MysqlUser :: string
  PrimaryHost :: string

text \<open>An element of \<^verbatim>\<open>vals []interface{}\<close>: the processor binds strings, a byte slice and a bool.\<close>

datatype val = VString string | VBytes "byte list" | VBool bool

text \<open>The value a Go call yields: it returns, or it panics and the stack unwinds.\<close>

datatype 'a exit = Returned 'a | Panicked string

text \<open>
  A compiled statement (\<^verbatim>\<open>*sql.Stmt\<close>) is a handle: the position of the
  \<^verbatim>\<open>db.Prepare\<close> call that made it among all \<^verbatim>\<open>Prepare\<close> calls on the store, so two
  handles are the same pointer exactly when they are equal.
\<close>

type_synonym stmt = nat

text \<open>
  The store behind the \<^verbatim>\<open>*sql.DB\<close> handle, as the processor can observe it: the SQL text
  of every \<^verbatim>\<open>Prepare\<close> call and the statement and values of every \<^verbatim>\<open>Exec\<close> call, oldest
  first.
\<close>

record store =
  prepare_calls :: "string list"
  exec_calls :: "(stmt \<times> val list) list"

datatype exec_outcome = ExecOk | ExecErr string | ExecPanic string

text \<open>
  What lies outside this file and is taken as a parameter: the address parser and printer
  of package \<^verbatim>\<open>mail\<close>, \<^verbatim>\<open>net.ParseIP\<close>, the canned response text, and the behaviour of
  the database driver (whether a \<^verbatim>\<open>Prepare\<close> of some SQL is refused, and how an
  \<^verbatim>\<open>Exec\<close> ends, each depending on what the store has seen so far).
\<close>

record lib =
  NewAddress :: "string \<Rightarrow> address option"
  Address_String :: "address \<Rightarrow> string"
  ParseIP :: "string \<Rightarrow> byte list"
  FailRcptCmd :: string
  prepare_error :: "store \<Rightarrow> string \<Rightarrow> string option"
  exec_result :: "store \<Rightarrow> stmt \<Rightarrow> val list \<Rightarrow> exec_outcome"

datatype log_entry =
    LogCannotPrepare string
  | LogRecovered string
  | LogInsertPanic string nat "string option"
  | LogInsertProblem string

text \<open>
  The state of a \<^verbatim>\<open>MysqlProcessor\<close> and of what it holds on to: \<^verbatim>\<open>g.cache\<close>, an array of
  \<^verbatim>\<open>*sql.Stmt\<close> indexed by the row count minus one (\<open>None\<close> is the nil pointer; the
  array's length is fixed by the type \<^verbatim>\<open>stmtCache\<close>, declared in another file), the store
  and the log.
\<close>

record pstate =
  cache :: "stmt option list"
  db :: store
  log :: "log_entry list"

subsection \<open>Strings\<close>

text \<open>
  \<^verbatim>\<open>strings.Index(s, substr)\<close>: the index of the first occurrence of \<^verbatim>\<open>substr\<close> in
  \<^verbatim>\<open>s\<close>, or \<open>-1\<close>.
\<close>

fun Index_from :: "int \<Rightarrow> string \<Rightarrow> string \<Rightarrow> int" where
  "Index_from i [] substr = (if substr = [] then i else - 1)"
| "Index_from i (c # cs) substr =
     (if prefix substr (c # cs) then i else Index_from (i + 1) cs substr)"

definition Index :: "string \<Rightarrow> string \<Rightarrow> int" where
  "Index s substr = Index_from 0 s substr"

text \<open>
  \<^verbatim>\<open>strings.TrimSpace\<close> removes the leading and the trailing white space of a string,
  as Unicode defines it (\<^verbatim>\<open>unicode.IsSpace\<close>). A Go string is UTF-8, so a white space
  character is one of the byte sequences below: the six of ASCII, U+0085, U+00A0, U+1680,
  U+2000 to U+200A, U+2028, U+2029, U+202F, U+205F and U+3000. No sequence is the beginning
  or the end of another one, and a byte sequence that is not valid UTF-8 decodes to no white
  space character, so trimming is dropping such sequences from the front, and then from the
  back, for as long as there is one.
\<close>

definition space_runes :: "string list" where
  "space_runes =
     [[CHR 0x09], [CHR 0x0A], [CHR 0x0B], [CHR 0x0C], [CHR 0x0D], [CHR 0x20],
      [CHR 0xC2, CHR 0x85], [CHR 0xC2, CHR 0xA0],
      [CHR 0xE1, CHR 0x9A, CHR 0x80],
      [CHR 0xE2, CHR 0x80, CHR 0x80], [CHR 0xE2, CHR 0x80, CHR 0x81],
      [CHR 0xE2, CHR 0x80, CHR 0x82], [CHR 0xE2, CHR 0x80, CHR 0x83],
      [CHR 0xE2, CHR 0x80, CHR 0x84], [CHR 0xE2, CHR 0x80, CHR 0x85],
      [CHR 0xE2, CHR 0x80, CHR 0x86], [CHR 0xE2, CHR 0x80, CHR 0x87],
      [CHR 0xE2, CHR 0x80, CHR 0x88], [CHR 0xE2, CHR 0x80, CHR 0x89],
      [CHR 0xE2, CHR 0x80, CHR 0x8A],
      [CHR 0xE2, CHR 0x80, CHR 0xA8], [CHR 0xE2, CHR 0x80, CHR 0xA9],
      [CHR 0xE2, CHR 0x80, CHR 0xAF],
      [CHR 0xE2, CHR 0x81, CHR 0x9F],
      [CHR 0xE3, CHR 0x80, CHR 0x80]]"

text \<open>The length of the sequence of \<open>ws\<close> that \<open>s\<close> begins with, 0 when there is none.\<close>

definition rune_width :: "string list \<Rightarrow> string \<Rightarrow> nat" where
  "rune_width ws s = (case find (\<lambda>w. prefix w s) ws of None \<Rightarrow> 0 | Some w \<Rightarrow> length w)"

function trim_runes :: "string list \<Rightarrow> string \<Rightarrow> string" where
  "trim_runes ws s =
     (if rune_width ws s = 0 then s else trim_runes ws (drop (rune_width ws s) s))"
  by pat_completeness auto
termination
proof (relation "measure (\<lambda>(ws, s). length s)")
  show "wf (measure (\<lambda>(ws, s). length s))" by simp
next
  fix ws :: "string list" and s :: string
  assume "rune_width ws s \<noteq> 0"
  moreover have "rune_width ws s \<le> length s"
    by (auto simp: rune_width_def find_Some_iff prefix_length_le split: option.splits)
  ultimately have "length s - rune_width ws s < length s"
    by arith
  then show "((ws, drop (rune_width ws s) s), (ws, s)) \<in> measure (\<lambda>(ws, s). length s)"
    by simp
qed

declare trim_runes.simps [simp del]

definition TrimSpace :: "string \<Rightarrow> string" where
  "TrimSpace s = rev (trim_runes (map rev space_runes) (rev (trim_runes space_runes s)))"

text \<open>
  Modelled from the spec: \<^verbatim>\<open>trimToLimit\<close> is declared in another file of package
  \<^verbatim>\<open>backends\<close>. The spec: for any string S, \<^verbatim>\<open>truncate(S, 255)\<close> returns S unchanged if
  \<^verbatim>\<open>len(S) \<le> 255\<close>, else the first 255 characters.
\<close>

definition trimToLimit :: "string \<Rightarrow> nat \<Rightarrow> string" where
  "trimToLimit str limit = (if length str \<le> limit then str else take limit str)"

text \<open>\<^verbatim>\<open>fmt.Sprintf("%s.%s@%s", a, b, c)\<close>.\<close>

definition Sprintf_mid :: "string \<Rightarrow> string \<Rightarrow> string \<Rightarrow> string" where
  "Sprintf_mid a b c = a @ ''.'' @ b @ ''@'' @ c"

text \<open>
  Modelled from the spec: \<^verbatim>\<open>mail.Envelope.String\<close> is declared in package \<^verbatim>\<open>mail\<close>. The
  spec calls it the full rendered message, and the processor's header comment says that
  \<^verbatim>\<open>e.Data\<close> and \<^verbatim>\<open>e.DeliveryHeader\<close> are saved together.
\<close>

definition Envelope_String :: "envelope \<Rightarrow> string" where
  "Envelope_String e = DeliveryHeader e @ Data e"

subsection \<open>The IP encoder\<close>

text \<open>
  \<^verbatim>\<open>net.IP\<close> is a byte slice, nil when the text did not parse. \<^verbatim>\<open>To4\<close> and \<^verbatim>\<open>To16\<close> are
  those of Go's package \<^verbatim>\<open>net\<close>: \<^verbatim>\<open>To4\<close> gives the 4 bytes of a 4-byte address or of a
  16-byte address with the IPv4-in-IPv6 prefix, and nil otherwise; \<^verbatim>\<open>To16\<close> gives a
  16-byte address as it is, a 4-byte one with that prefix, and nil otherwise.
\<close>

definition v4InV6Prefix :: "byte list" where
  "v4InV6Prefix = [0, 0, 0, 0, 0, 0, 0, 0, 0, 0, 0xff, 0xff]"

definition To4 :: "byte list \<Rightarrow> byte list" where
  "To4 ip =
     (if length ip = 4 then ip
      else if length ip = 16 \<and> take 12 ip = v4InV6Prefix then drop 12 ip
      else [])"

definition To16 :: "byte list \<Rightarrow> byte list" where
  "To16 ip =
     (if length ip = 4 then v4InV6Prefix @ ip
      else if length ip = 16 then ip
      else [])"

text \<open>
  \<^verbatim>\<open>big.Int\<close>: \<^verbatim>\<open>SetBytes\<close> reads a big-endian unsigned integer, \<^verbatim>\<open>Bytes\<close> writes one
  with no leading zero byte (so zero is the empty slice).
\<close>

definition SetBytes :: "byte list \<Rightarrow> nat" where
  "SetBytes buf = foldl (\<lambda>acc b. acc * 256 + unat b) 0 buf"

fun Bytes :: "nat \<Rightarrow> byte list" where
  "Bytes n = (if n = 0 then [] else Bytes (n div 256) @ [of_nat (n mod 256)])"

declare Bytes.simps [simp del]

definition ip2bint :: "lib \<Rightarrow> string \<Rightarrow> nat" where
  "ip2bint l ip =
     (let addr = ParseIP l ip in
      if Index ip ''::'' > 0 then SetBytes (To16 addr) else SetBytes (To4 addr))"

subsection \<open>The statement cache\<close>

text \<open>The loop of \<^verbatim>\<open>prepareInsertQuery\<close> that appends one value tuple per row.\<close>

definition values_tuple :: string where
  "values_tuple = ''(NOW(), ?, ?, ?, ? , ?, 0, ?, ?, ?, 0, ?, ?, ?, ?, ?, ?)''"

fun add_rows :: "nat \<Rightarrow> string \<Rightarrow> string \<Rightarrow> string" where
  "add_rows 0 comma sqlstr = sqlstr"
| "add_rows (Suc n) comma sqlstr =
     add_rows n (if comma = [] then '','' else comma) (sqlstr @ comma @ values_tuple)"

text \<open>The three literals with the list of columns, and the text before the value tuples.\<close>

definition insert_columns :: string where
  "insert_columns =
     ''(`date`, `to`, `from`, `subject`, `body`,  `mail`, `spam_score`, ''
     @ ''`hash`, `content_type`, `recipient`, `has_attach`, `ip_addr`, ''
     @ ''`return_path`, `is_tls`, `message_id`, `reply_to`, `sender`)''"

definition insert_head :: "string \<Rightarrow> string" where
  "insert_head table = ''INSERT INTO '' @ table @ '' '' @ insert_columns @ '' VALUES ''"

definition insert_sql :: "string \<Rightarrow> int \<Rightarrow> string" where
  "insert_sql table rows = add_rows (nat rows) [] (insert_head table)"

text \<open>
  \<^verbatim>\<open>db.Prepare\<close>: the store records the call; the driver refuses the SQL or hands out a
  fresh statement.
\<close>

definition db_Prepare :: "lib \<Rightarrow> store \<Rightarrow> string \<Rightarrow> (string + stmt) \<times> store" where
  "db_Prepare l d sqlstr =
     (let d' = d\<lparr>prepare_calls := prepare_calls d @ [sqlstr]\<rparr> in
      case prepare_error l d sqlstr of
        Some err \<Rightarrow> (Inl err, d')
      | None \<Rightarrow> (Inr (length (prepare_calls d)), d'))"

definition prepareInsertQuery ::
  "lib \<Rightarrow> MysqlProcessorConfig \<Rightarrow> int \<Rightarrow> pstate \<Rightarrow> stmt exit \<times> pstate" where
  "prepareInsertQuery l cfg rows st =
     (if rows = 0 then (Panicked ''rows argument cannot be 0'', st)
      else if rows - 1 < 0 \<or> int (length (cache st)) \<le> rows - 1
        then (Panicked ''runtime error: index out of range'', st)
      else case cache st ! nat (rows - 1) of
        Some s \<Rightarrow> (Returned s, st)
      | None \<Rightarrow>
          (case db_Prepare l (db st) (insert_sql (MysqlTable cfg) rows) of
             (Inl sqlErr, d') \<Rightarrow>
               (Panicked ''failed while db.Prepare(INSERT...)'',
                st\<lparr>db := d', log := log st @ [LogCannotPrepare sqlErr]\<rparr>)
           | (Inr s, d') \<Rightarrow>
               (Returned s, st\<lparr>cache := (cache st)[nat (rows - 1) := Some s], db := d'\<rparr>)))"

subsection \<open>The insert executor\<close>

text \<open>\<^verbatim>\<open>insertStmt.Exec(*vals...)\<close>: the store records the call and the driver decides how it ends.\<close>

definition stmt_Exec :: "lib \<Rightarrow> store \<Rightarrow> stmt \<Rightarrow> val list \<Rightarrow> exec_outcome \<times> store" where
  "stmt_Exec l d s vals =
     (exec_result l d s vals, d\<lparr>exec_calls := exec_calls d @ [(s, vals)]\<rparr>)"

text \<open>The sum the deferred function of \<^verbatim>\<open>doQuery\<close> computes: the lengths of the string values.\<close>

fun string_len :: "val \<Rightarrow> nat" where
  "string_len (VString str) = length str"
| "string_len (VBytes _) = 0"
| "string_len (VBool _) = 0"

definition strings_sum :: "val list \<Rightarrow> nat" where
  "strings_sum vals = foldl (\<lambda>sum v. sum + string_len v) 0 vals"

text \<open>The body of \<^verbatim>\<open>doQuery\<close>, before its deferred function runs.\<close>

definition doQuery_body ::
  "lib \<Rightarrow> MysqlProcessorConfig \<Rightarrow> int \<Rightarrow> val list \<Rightarrow> pstate \<Rightarrow> string option exit \<times> pstate" where
  "doQuery_body l cfg c vals st =
     (case prepareInsertQuery l cfg c st of
        (Panicked r, st1) \<Rightarrow> (Panicked r, st1)
      | (Returned insertStmt, st1) \<Rightarrow>
          (case stmt_Exec l (db st1) insertStmt vals of
             (ExecPanic r, d') \<Rightarrow> (Panicked r, st1\<lparr>db := d'\<rparr>)
           | (ExecErr execErr, d') \<Rightarrow>
               (Returned (Some execErr),
                st1\<lparr>db := d', log := log st1 @ [LogInsertProblem execErr]\<rparr>)
           | (ExecOk, d') \<Rightarrow> (Returned None, st1\<lparr>db := d'\<rparr>)))"

text \<open>
  \<^verbatim>\<open>doQuery\<close>: the deferred function recovers a panic of the body, logs it with the sum
  (\<^verbatim>\<open>execErr\<close> is still nil then, a panic having left the body before it was assigned),
  and panics again with \<^verbatim>\<open>"query failed"\<close>. The statement passed in is overwritten
  before it is read.
\<close>

definition doQuery ::
  "lib \<Rightarrow> MysqlProcessorConfig \<Rightarrow> int \<Rightarrow> stmt \<Rightarrow> val list \<Rightarrow> pstate
    \<Rightarrow> string option exit \<times> pstate" where
  "doQuery l cfg c insertStmt vals st =
     (case doQuery_body l cfg c vals st of
        (Panicked r, st1) \<Rightarrow>
          (Panicked ''query failed'',
           st1\<lparr>log := log st1 @ [LogRecovered r, LogInsertPanic r (strings_sum vals) None]\<rparr>)
      | (Returned execErr, st1) \<Rightarrow> (Returned execErr, st1))"

subsection \<open>Deriving the fields of a row\<close>

definition exit_bind :: "'a exit \<Rightarrow> ('a \<Rightarrow> 'b exit) \<Rightarrow> 'b exit" where
  "exit_bind x f = (case x of Panicked r \<Rightarrow> Panicked r | Returned a \<Rightarrow> f a)"

text \<open>\<^verbatim>\<open>v[0]\<close> on a header's values: indexing an empty slice panics.\<close>

definition first_value :: "string list \<Rightarrow> string exit" where
  "first_value v =
     (case v of [] \<Rightarrow> Panicked ''runtime error: index out of range'' | v0 # _ \<Rightarrow> Returned v0)"

definition fillAddressFromHeader :: "lib \<Rightarrow> envelope \<Rightarrow> string \<Rightarrow> string exit" where
  "fillAddressFromHeader l e headerKey =
     (case Header e headerKey of
        Some v \<Rightarrow>
          exit_bind (first_value v) (\<lambda>v0.
            case NewAddress l v0 of
              None \<Rightarrow> Returned []
            | Some addr \<Rightarrow> Returned (Address_String l addr))
      | None \<Rightarrow> Returned [])"

text \<open>
  The body of the loop over \<^verbatim>\<open>e.RcptTo\<close> up to the call of \<^verbatim>\<open>prepareInsertQuery\<close>:
  the values of one recipient's row. \<open>hash\<close>, \<open>body\<close> and \<open>co\<close> are the variables set
  before the loop.
\<close>

definition row_values ::
  "lib \<Rightarrow> MysqlProcessorConfig \<Rightarrow> envelope \<Rightarrow> string \<Rightarrow> string \<Rightarrow> string option \<Rightarrow> address
    \<Rightarrow> val list exit" where
  "row_values l cfg e hash body co rcpt =
     exit_bind (fillAddressFromHeader l e ''To'') (\<lambda>to0.
     let to1 = trimToLimit to0 255;
         to = (if to1 = [] then trimToLimit (TrimSpace (Address_String l rcpt)) 255 else to1)
     in
     exit_bind (fillAddressFromHeader l e ''Message-Id'') (\<lambda>mid0.
     let mid1 = trimToLimit mid0 255;
         mid = (if mid1 = [] then Sprintf_mid hash (User rcpt) (PrimaryHost cfg) else mid1)
     in
     exit_bind (fillAddressFromHeader l e ''Reply-To'') (\<lambda>replyTo0.
     let replyTo = trimToLimit replyTo0 255 in
     exit_bind (fillAddressFromHeader l e ''Sender'') (\<lambda>sender0.
     let sender = trimToLimit sender0 255;
         recipient = trimToLimit (TrimSpace (Address_String l rcpt)) 255
     in
     exit_bind
       (case Header e ''Content-Type'' of
          Some v \<Rightarrow> exit_bind (first_value v) (\<lambda>v0. Returned (trimToLimit v0 255))
        | None \<Rightarrow> Returned [])
       (\<lambda>contentType.
     Returned
       ([VString to,
         VString (trimToLimit (Address_String l (MailFrom e)) 255),
         VString (trimToLimit (Subject e) 255),
         VString body]
        @ [if body = ''redis'' then VString []
           else case co of
             Some c \<Rightarrow> VString c
           | None \<Rightarrow> VString (Envelope_String e)]
        @ [VString hash,
           VString contentType,
           VString recipient,
           VBytes (Bytes (ip2bint l (RemoteIP e))),
           VString (trimToLimit (Address_String l (MailFrom e)) 255),
           VBool (TLS e),
           VString mid,
           VString replyTo,
           VString sender]))))))"

subsection \<open>The processor\<close>

text \<open>
  \<^verbatim>\<open>SelectTask\<close>, \<^verbatim>\<open>Result\<close> and the two error values are declared in other files of the
  package. What the processor function returns is either a result with an error, or
  whatever the next processor returns: \<open>Forward\<close> stands for \<^verbatim>\<open>return p.Process(e, task)\<close>.
\<close>

datatype SelectTask = TaskSaveMail | TaskValidateRcpt | TaskOther

datatype Result = NewResult string

datatype backend_error = StorageError | NoSuchUser

datatype reply = Reply Result backend_error | Forward

text \<open>
  The two lookups in \<^verbatim>\<open>e.Values\<close> before the loop: they set \<^verbatim>\<open>body\<close> and \<^verbatim>\<open>co\<close>. The
  type assertion \<^verbatim>\<open>c.(*compressor)\<close> panics on a value of another type.
\<close>

definition body_mode :: "envelope \<Rightarrow> (string \<times> string option) exit" where
  "body_mode e =
     exit_bind
       (case Values e ''zlib-compressor'' of
          Some c \<Rightarrow>
            (case c of
               CompressorPtr co \<Rightarrow> Returned (''gzip'', co)
             | OtherValue \<Rightarrow> Panicked ''interface conversion: interface {} is not *backends.compressor'')
        | None \<Rightarrow> Returned ([], None))
       (\<lambda>(body, co).
          case Values e ''redis'' of
            Some _ \<Rightarrow> Returned (''redis'', co)
          | None \<Rightarrow> Returned (body, co))"

text \<open>The loop \<^verbatim>\<open>for i := range e.RcptTo\<close>, and the forward after it.\<close>

fun save_rcpts ::
  "lib \<Rightarrow> MysqlProcessorConfig \<Rightarrow> envelope \<Rightarrow> string \<Rightarrow> string \<Rightarrow> string option \<Rightarrow> address list
    \<Rightarrow> pstate \<Rightarrow> reply exit \<times> pstate" where
  "save_rcpts l cfg e hash body co [] st = (Returned Forward, st)"
| "save_rcpts l cfg e hash body co (rcpt # rcpts) st =
     (case row_values l cfg e hash body co rcpt of
        Panicked r \<Rightarrow> (Panicked r, st)
      | Returned vals \<Rightarrow>
          (case prepareInsertQuery l cfg 1 st of
             (Panicked r, st1) \<Rightarrow> (Panicked r, st1)
           | (Returned stmt, st1) \<Rightarrow>
               (case doQuery l cfg 1 stmt vals st1 of
                  (Panicked r, st2) \<Rightarrow> (Panicked r, st2)
                | (Returned (Some err), st2) \<Rightarrow>
                    (Returned (Reply (NewResult ''554 Error: could not save email'') StorageError),
                     st2)
                | (Returned None, st2) \<Rightarrow> save_rcpts l cfg e hash body co rcpts st2)))"

text \<open>
  The first statements of the save branch: \<^verbatim>\<open>hash\<close> is \<^verbatim>\<open>e.Hashes[0]\<close> when there is
  one, and \<^verbatim>\<open>e.QueuedId\<close> is assigned in the same \<^verbatim>\<open>if\<close>.
\<close>

definition first_hash :: "envelope \<Rightarrow> string" where
  "first_hash e = (case Hashes e of [] \<Rightarrow> [] | h # _ \<Rightarrow> h)"

definition set_QueuedId :: "envelope \<Rightarrow> envelope" where
  "set_QueuedId e = (case Hashes e of [] \<Rightarrow> e | h # _ \<Rightarrow> e\<lparr>QueuedId := h\<rparr>)"

text \<open>
  The function \<^verbatim>\<open>MySql\<close> hands to \<^verbatim>\<open>ProcessWith\<close>, after the initializer has set
  \<^verbatim>\<open>config\<close> and \<^verbatim>\<open>db\<close>. It returns what the Go function returns, the envelope as the
  call leaves it, and the state.
\<close>

definition MySql_Process ::
  "lib \<Rightarrow> MysqlProcessorConfig \<Rightarrow> envelope \<Rightarrow> SelectTask \<Rightarrow> pstate
    \<Rightarrow> reply exit \<times> envelope \<times> pstate" where
  "MySql_Process l cfg e task st =
     (case task of
        TaskSaveMail \<Rightarrow>
          (let hash = first_hash e;
               e1 = set_QueuedId e
           in case body_mode e1 of
                Panicked r \<Rightarrow> (Panicked r, e1, st)
              | Returned (body, co) \<Rightarrow>
                  (case save_rcpts l cfg e1 hash body co (RcptTo e1) st of
                     (out, st1) \<Rightarrow> (out, e1, st1)))
      | TaskValidateRcpt \<Rightarrow>
          (if length (RcptTo e) > 0 \<and> length (User (last (RcptTo e))) > 255
           then (Returned (Reply (NewResult (FailRcptCmd l)) NoSuchUser), e, st)
           else (Returned Forward, e, st))
      | TaskOther \<Rightarrow> (Returned Forward, e, st))"

subsection \<open>Sample inputs\<close>

text \<open>
  Concrete values for the parameters, to run the processor on. The sample address parser
  accepts \<open>user@host\<close> with a non-empty user, the printer writes it back; the sample
  \<^verbatim>\<open>ParseIP\<close> holds what \<^verbatim>\<open>net.ParseIP\<close> returns on three literals (always the 16-byte
  form) and nil for any other text.
\<close>

definition sample_NewAddress :: "string \<Rightarrow> address option" where
  "sample_NewAddress str =
     (let pos = Index str ''@'' in
      if pos > 0 then Some \<lparr>User = take (nat pos) str, Host = drop (nat pos + 1) str\<rparr>
      else None)"

definition sample_Address_String :: "address \<Rightarrow> string" where
  "sample_Address_String a = User a @ ''@'' @ Host a"

definition sample_ParseIP :: "string \<Rightarrow> byte list" where
  "sample_ParseIP ip =
     (if ip = ''192.168.1.1'' then v4InV6Prefix @ [192, 168, 1, 1]
      else if ip = ''::1'' then [0, 0, 0, 0, 0, 0, 0, 0, 0, 0, 0, 0, 0, 0, 0, 1]
      else if ip = ''fe80::1'' then [0xfe, 0x80, 0, 0, 0, 0, 0, 0, 0, 0, 0, 0, 0, 0, 0, 1]
      else [])"

definition accept_all :: "store \<Rightarrow> string \<Rightarrow> string option" where
  "accept_all d sqlstr = None"

definition exec_ok :: "store \<Rightarrow> stmt \<Rightarrow> val list \<Rightarrow> exec_outcome" where
  "exec_ok d s vals = ExecOk"

definition exec_fails :: "store \<Rightarrow> stmt \<Rightarrow> val list \<Rightarrow> exec_outcome" where
  "exec_fails d s vals = ExecErr ''Error 1406: Data too long for column''"

definition exec_fails_second :: "store \<Rightarrow> stmt \<Rightarrow> val list \<Rightarrow> exec_outcome" where
  "exec_fails_second d s vals =
     (if length (exec_calls d) = 1 then ExecErr ''Error 2006: MySQL server has gone away''
      else ExecOk)"

definition exec_panics :: "store \<Rightarrow> stmt \<Rightarrow> val list \<Rightarrow> exec_outcome" where
  "exec_panics d s vals = ExecPanic ''runtime error: invalid memory address or nil pointer dereference''"

definition exec_panics_second :: "store \<Rightarrow> stmt \<Rightarrow> val list \<Rightarrow> exec_outcome" where
  "exec_panics_second d s vals =
     (if length (exec_calls d) = 1
      then ExecPanic ''runtime error: invalid memory address or nil pointer dereference''
      else ExecOk)"

definition refuse_all :: "store \<Rightarrow> string \<Rightarrow> string option" where
  "refuse_all d sqlstr = Some ''Error 1146: Table does not exist''"

definition sample_lib :: lib where
  "sample_lib =
     \<lparr>NewAddress = sample_NewAddress, Address_String = sample_Address_String,
      ParseIP = sample_ParseIP, FailRcptCmd = ''550 Error: no such user'',
      prepare_error = accept_all, exec_result = exec_ok\<rparr>"

definition failing_lib :: lib where
  "failing_lib = sample_lib\<lparr>exec_result := exec_fails\<rparr>"

definition second_fails_lib :: lib where
  "second_fails_lib = sample_lib\<lparr>exec_result := exec_fails_second\<rparr>"

definition panicking_lib :: lib where
  "panicking_lib = sample_lib\<lparr>exec_result := exec_panics\<rparr>"

definition second_panics_lib :: lib where
  "second_panics_lib = sample_lib\<lparr>exec_result := exec_panics_second\<rparr>"

definition refusing_lib :: lib where
  "refusing_lib = sample_lib\<lparr>prepare_error := refuse_all\<rparr>"

definition sample_config :: MysqlProcessorConfig where
  "sample_config =
     \<lparr>MysqlTable = ''new_mail'', MysqlDB = ''gmail_mail'', MysqlHost = ''127.0.0.1:3306'',
      MysqlPass = ''secret'', MysqlUser = ''root'', PrimaryHost = ''mail.example.com''\<rparr>"

text \<open>A processor that has not compiled anything yet, with a cache of \<open>n\<close> slots.\<close>

definition fresh_state :: "nat \<Rightarrow> pstate" where
  "fresh_state n =
     \<lparr>cache = replicate n None, db = \<lparr>prepare_calls = [], exec_calls = []\<rparr>, log = []\<rparr>"

definition alice :: address where
  "alice = \<lparr>User = ''alice'', Host = ''example.com''\<rparr>"

definition bob :: address where
  "bob = \<lparr>User = ''bob'', Host = ''example.com''\<rparr>"

definition carol :: address where
  "carol = \<lparr>User = ''carol'', Host = ''example.com''\<rparr>"

text \<open>A recipient whose local part has \<open>n\<close> characters.\<close>

definition long_user :: "nat \<Rightarrow> address" where
  "long_user n = \<lparr>User = replicate n (CHR ''a''), Host = ''example.com''\<rparr>"

text \<open>A mail with no header, no hash and nothing left in \<^verbatim>\<open>Values\<close> by earlier processors.\<close>

definition plain_mail :: envelope where
  "plain_mail =
     \<lparr>RemoteIP = ''192.168.1.1'', MailFrom = bob, RcptTo = [alice],
      Data = ''hello'', Subject = ''hi'', TLS = False,
      Header = Map.empty, Values = Map.empty, Hashes = [],
      DeliveryHeader = ''Delivered-To: alice@example.com; '', QueuedId = []\<rparr>"

text \<open>The same mail after the hasher has run.\<close>

definition hashed_mail :: envelope where
  "hashed_mail = plain_mail\<lparr>Hashes := [''5d41402abc4b2a76b9719d911017c592'']\<rparr>"

definition three_rcpt_mail :: envelope where
  "three_rcpt_mail = hashed_mail\<lparr>RcptTo := [alice, bob, carol]\<rparr>"

definition redis_mail :: envelope where
  "redis_mail =
     hashed_mail\<lparr>Values := [''redis'' \<mapsto> OtherValue,
                              ''zlib-compressor'' \<mapsto> CompressorPtr (Some ''x-compressed'')]\<rparr>"

definition gzip_mail :: envelope where
  "gzip_mail =
     hashed_mail\<lparr>Values := [''zlib-compressor'' \<mapsto> CompressorPtr (Some ''x-compressed'')]\<rparr>"

text \<open>A mail whose four address headers are present and do not parse as an address.\<close>

definition bad_headers_mail :: envelope where
  "bad_headers_mail =
     hashed_mail\<lparr>Header := [''To'' \<mapsto> [''undisclosed-recipients:;''],
                              ''Message-Id'' \<mapsto> [''no-at-sign''],
                              ''Reply-To'' \<mapsto> [''nobody''],
                              ''Sender'' \<mapsto> [''@'']]\<rparr>"

text \<open>
  A mail sent over TLS from an IPv6 address, with every header the processor reads, a
  subject of 300 characters, and a \<^verbatim>\<open>To\<close> header that is not the recipient.
\<close>

definition full_mail :: envelope where
  "full_mail =
     \<lparr>RemoteIP = ''fe80::1'', MailFrom = bob, RcptTo = [alice],
      Data = ''hello'', Subject = replicate 300 (CHR ''s''), TLS = True,
      Header = [''To'' \<mapsto> [''carol@example.org''],
                ''Message-Id'' \<mapsto> [''20170101.1@mx.example.org''],
                ''Reply-To'' \<mapsto> [''dave@example.org''],
                ''Sender'' \<mapsto> [''erin@example.org''],
                ''Content-Type'' \<mapsto> [''text/plain; charset=utf-8'']],
      Values = Map.empty, Hashes = [''5d41402abc4b2a76b9719d911017c592''],
      DeliveryHeader = ''Delivered-To: alice@example.com; '', QueuedId = []\<rparr>"

definition long_mail :: envelope where
  "long_mail = plain_mail\<lparr>RcptTo := [long_user 255]\<rparr>"

subsection \<open>The life of a processor\<close>

text \<open>
  \<open>keeps st st'\<close>: the cache of \<open>st'\<close> has the slots of the cache of \<open>st\<close>, and every
  statement that \<open>st\<close> holds is still in its slot in \<open>st'\<close>.
\<close>

definition keeps :: "pstate \<Rightarrow> pstate \<Rightarrow> bool" where
  "keeps st st' \<longleftrightarrow>
     length (cache st') = length (cache st) \<and>
     (\<forall>i < length (cache st). \<forall>s. cache st ! i = Some s \<longrightarrow> cache st' ! i = Some s)"

text \<open>
  \<open>later st st'\<close>: the processor gets from \<open>st\<close> to \<open>st'\<close> by calls of its functions, one
  after the other, with any arguments, whatever the driver does at each call and however
  each call ends.
\<close>

inductive later :: "pstate \<Rightarrow> pstate \<Rightarrow> bool" where
  later_now: "later st st"
| later_prepareInsertQuery:
    "later st st1 \<Longrightarrow> later st (snd (prepareInsertQuery l cfg rows st1))"
| later_doQuery:
    "later st st1 \<Longrightarrow> later st (snd (doQuery l cfg c s vals st1))"
| later_Process:
    "later st st1 \<Longrightarrow> later st (snd (snd (MySql_Process l cfg e task st1)))"

subsection \<open>Reading the statement\<close>

text \<open>
  To say which column of the statement takes which value: \<open>fields\<close> gives the items of
  a parenthesised list separated by commas, without the white space around them, and
  \<open>placeholder_columns\<close> the columns, in order, whose item of the value tuple is a
  placeholder.
\<close>

fun split_commas :: "string \<Rightarrow> string \<Rightarrow> string list" where
  "split_commas item [] = [rev item]"
| "split_commas item (c # cs) =
     (if c = CHR '','' then rev item # split_commas [] cs else split_commas (c # item) cs)"

definition fields :: "string \<Rightarrow> string list" where
  "fields s = map TrimSpace (split_commas [] (butlast (tl s)))"

definition placeholder_columns :: "string list" where
  "placeholder_columns =
     map fst (filter (\<lambda>(column, item). item = ''?'') (zip (fields insert_columns) (fields values_tuple)))"

section \<open>Properties\<close>

text \<open>The definitions that running the processor on a sample input unfolds.\<close>

lemmas sample_defs =
  sample_lib_def failing_lib_def second_fails_lib_def panicking_lib_def sample_config_def
  fresh_state_def alice_def bob_def carol_def plain_mail_def hashed_mail_def three_rcpt_mail_def
  sample_NewAddress_def sample_Address_String_def sample_ParseIP_def accept_all_def exec_ok_def
  exec_fails_def exec_fails_second_def exec_panics_def long_user_def redis_mail_def gzip_mail_def
  exec_panics_second_def refuse_all_def second_panics_lib_def refusing_lib_def full_mail_def
  bad_headers_mail_def long_mail_def

lemmas row_defs =
  MySql_Process_def first_hash_def set_QueuedId_def body_mode_def row_values_def exit_bind_def
  fillAddressFromHeader_def first_value_def trimToLimit_def
  Sprintf_mid_def Envelope_String_def ip2bint_def Index_def To4_def To16_def v4InV6Prefix_def
  SetBytes_def doQuery_def doQuery_body_def stmt_Exec_def prepareInsertQuery_def db_Prepare_def
  strings_sum_def Let_def

lemmas run_defs = row_defs TrimSpace_def trim_runes.simps rune_width_def space_runes_def

lemma TrimSpace_plain:
  assumes "rune_width space_runes s = 0"
    and "rune_width (map rev space_runes) (rev s) = 0"
  shows "TrimSpace s = s"
proof -
  have "trim_runes space_runes s = s"
    using assms(1) by (subst trim_runes.simps) simp
  moreover have "trim_runes (map rev space_runes) (rev s) = rev s"
    using assms(2) by (subst trim_runes.simps) simp
  ultimately show ?thesis
    by (simp add: TrimSpace_def)
qed

subsection \<open>Facts about the SQL text\<close>

lemma count_values_tuple: "count_list values_tuple (CHR ''?'') = 14"
  by (simp add: values_tuple_def)

lemma count_add_rows:
  "comma = [] \<or> comma = '','' \<Longrightarrow>
   count_list (add_rows n comma sqlstr) (CHR ''?'') = count_list sqlstr (CHR ''?'') + 14 * n"
  by (induction n arbitrary: comma sqlstr) (auto simp: count_values_tuple)

lemma count_insert_head:
  "count_list (insert_head table) (CHR ''?'') = count_list table (CHR ''?'')"
  by (simp add: insert_head_def insert_columns_def)

lemma add_rows_comma:
  "add_rows n '','' sqlstr = sqlstr @ concat (replicate n ('','' @ values_tuple))"
  by (induction n arbitrary: sqlstr) simp_all

lemma insert_sql_tuples:
  assumes "1 \<le> rows"
  shows "insert_sql table rows =
     insert_head table @ values_tuple @ concat (replicate (nat rows - 1) ('','' @ values_tuple))"
proof -
  from assms obtain n where n: "nat rows = Suc n"
    by (cases "nat rows") auto
  show ?thesis
    unfolding insert_sql_def n by (simp add: add_rows_comma)
qed

lemma length_row_values:
  "row_values l cfg e hash body co rcpt = Returned vals \<Longrightarrow> length vals = 14"
  by (auto simp: row_values_def exit_bind_def Let_def split: exit.splits option.splits)

subsection \<open>Facts about the cache\<close>

lemma prepareInsertQuery_hit:
  "1 \<le> rows \<Longrightarrow> rows \<le> int (length (cache st)) \<Longrightarrow> cache st ! nat (rows - 1) = Some s \<Longrightarrow>
   prepareInsertQuery l cfg rows st = (Returned s, st)"
  by (simp add: prepareInsertQuery_def)

lemma prepareInsertQuery_miss:
  "1 \<le> rows \<Longrightarrow> rows \<le> int (length (cache st)) \<Longrightarrow> cache st ! nat (rows - 1) = None \<Longrightarrow>
   prepare_error l (db st) (insert_sql (MysqlTable cfg) rows) = None \<Longrightarrow>
   prepareInsertQuery l cfg rows st =
     (Returned (length (prepare_calls (db st))),
      st\<lparr>cache := (cache st)[nat (rows - 1) := Some (length (prepare_calls (db st)))],
         db := (db st)\<lparr>prepare_calls :=
                 prepare_calls (db st) @ [insert_sql (MysqlTable cfg) rows]\<rparr>\<rparr>)"
  by (simp add: prepareInsertQuery_def db_Prepare_def)

lemma prepareInsertQuery_beyond:
  "int (length (cache st)) < rows \<Longrightarrow>
   prepareInsertQuery l cfg rows st = (Panicked ''runtime error: index out of range'', st)"
  by (simp add: prepareInsertQuery_def)

lemma prepareInsertQuery_Returned:
  assumes "prepareInsertQuery l cfg rows st = (Returned s, st1)"
  shows "1 \<le> rows \<and> rows \<le> int (length (cache st1)) \<and> cache st1 ! nat (rows - 1) = Some s"
  using assms
  by (auto simp: prepareInsertQuery_def db_Prepare_def Let_def
           split: if_splits option.splits sum.splits prod.splits)

lemma prepareInsertQuery_again:
  assumes "prepareInsertQuery l cfg rows st = (Returned s, st1)"
  shows "prepareInsertQuery l' cfg' rows st1 = (Returned s, st1)"
  using prepareInsertQuery_Returned [OF assms] by (simp add: prepareInsertQuery_hit)

lemma keeps_refl: "keeps st st"
  by (simp add: keeps_def)

lemma keeps_trans: "keeps a b \<Longrightarrow> keeps b c \<Longrightarrow> keeps a c"
  by (simp add: keeps_def)

lemma prepareInsertQuery_keeps: "keeps st (snd (prepareInsertQuery l cfg rows st))"
  by (auto simp: prepareInsertQuery_def db_Prepare_def Let_def keeps_def nth_list_update
           split: option.splits sum.splits prod.splits)

lemma doQuery_body_keeps: "keeps st (snd (doQuery_body l cfg c vals st))"
proof -
  have k: "keeps st (snd (prepareInsertQuery l cfg c st))"
    by (rule prepareInsertQuery_keeps)
  obtain x st1 where p: "prepareInsertQuery l cfg c st = (x, st1)"
    by (cases "prepareInsertQuery l cfg c st")
  with k have k1: "keeps st st1" by simp
  show ?thesis
    using k1 unfolding doQuery_body_def p stmt_Exec_def
    by (auto simp: keeps_def split: exit.splits exec_outcome.splits)
qed

lemma doQuery_keeps: "keeps st (snd (doQuery l cfg c s vals st))"
proof -
  obtain x st1 where p: "doQuery_body l cfg c vals st = (x, st1)"
    by (cases "doQuery_body l cfg c vals st")
  with doQuery_body_keeps [of st l cfg c vals] have k1: "keeps st st1" by simp
  show ?thesis
    using k1 unfolding doQuery_def p
    by (auto simp: keeps_def split: exit.splits)
qed

lemma save_rcpts_keeps: "keeps st (snd (save_rcpts l cfg e hash body co rcpts st))"
proof (induction rcpts arbitrary: st)
  case Nil
  show ?case by (simp add: keeps_refl)
next
  case (Cons rcpt rcpts)
  show ?case
  proof (cases "row_values l cfg e hash body co rcpt")
    case (Panicked r)
    then show ?thesis by (simp add: keeps_refl)
  next
    case (Returned vals)
    obtain x st1 where p: "prepareInsertQuery l cfg 1 st = (x, st1)"
      by (cases "prepareInsertQuery l cfg 1 st")
    with prepareInsertQuery_keeps [of st l cfg 1] have k1: "keeps st st1" by simp
    show ?thesis
    proof (cases x)
      case (Panicked r)
      with Returned p k1 show ?thesis by simp
    next
      case stmt: (Returned stmt)
      obtain y st2 where q: "doQuery l cfg 1 stmt vals st1 = (y, st2)"
        by (cases "doQuery l cfg 1 stmt vals st1")
      with doQuery_keeps [of st1 l cfg 1 stmt vals] have k2: "keeps st1 st2" by simp
      have k02: "keeps st st2" using k1 k2 by (rule keeps_trans)
      show ?thesis
      proof (cases y)
        case (Panicked r)
        with Returned p stmt q k02 show ?thesis by simp
      next
        case err: (Returned err)
        show ?thesis
        proof (cases err)
          case None
          have "keeps st2 (snd (save_rcpts l cfg e hash body co rcpts st2))"
            by (rule Cons.IH)
          with k02 have "keeps st (snd (save_rcpts l cfg e hash body co rcpts st2))"
            by (rule keeps_trans)
          with Returned p stmt q err None show ?thesis by simp
        next
          case (Some a)
          with Returned p stmt q err k02 show ?thesis by simp
        qed
      qed
    qed
  qed
qed

lemma MySql_Process_keeps: "keeps st (snd (snd (MySql_Process l cfg e task st)))"
proof (cases task)
  case TaskSaveMail
  show ?thesis
  proof (cases "body_mode (set_QueuedId e)")
    case (Panicked r)
    with TaskSaveMail show ?thesis by (simp add: MySql_Process_def keeps_refl)
  next
    case (Returned bc)
    obtain body co where bc: "bc = (body, co)" by (cases bc)
    show ?thesis
      using save_rcpts_keeps [of st l cfg "set_QueuedId e" "first_hash e" body co "RcptTo (set_QueuedId e)"]
      by (auto simp: MySql_Process_def Let_def TaskSaveMail Returned bc split: prod.splits)
  qed
next
  case TaskValidateRcpt
  then show ?thesis by (simp add: MySql_Process_def keeps_refl)
next
  case TaskOther
  then show ?thesis by (simp add: MySql_Process_def keeps_refl)
qed


lemma later_keeps: "later st st' \<Longrightarrow> keeps st st'"
proof (induction rule: later.induct)
  case (later_now st)
  show ?case by (rule keeps_refl)
next
  case (later_prepareInsertQuery st st1 l cfg rows)
  then show ?case using prepareInsertQuery_keeps keeps_trans by blast
next
  case (later_doQuery st st1 l cfg c s vals)
  then show ?case using doQuery_keeps keeps_trans by blast
next
  case (later_Process st st1 l cfg e task)
  then show ?case using MySql_Process_keeps keeps_trans by blast
qed

lemma prepareInsertQuery_later:
  assumes "prepareInsertQuery l cfg rows st = (Returned s, st1)" and "later st1 st2"
  shows "prepareInsertQuery l' cfg' rows st2 = (Returned s, st2)"
proof -
  from assms(1) have r: "1 \<le> rows" "rows \<le> int (length (cache st1))"
      "cache st1 ! nat (rows - 1) = Some s"
    using prepareInsertQuery_Returned by blast+
  from assms(2) have k: "keeps st1 st2" by (rule later_keeps)
  from r have i: "nat (rows - 1) < length (cache st1)" by linarith
  from k r i have "cache st2 ! nat (rows - 1) = Some s" "rows \<le> int (length (cache st2))"
    by (auto simp: keeps_def)
  with r(1) show ?thesis by (simp add: prepareInsertQuery_hit)
qed

subsection \<open>Facts about the executor and the loop\<close>

lemma doQuery_after_prepare:
  assumes "prepareInsertQuery l cfg rows st = (Returned s, st1)"
  shows "doQuery l cfg rows s' vals st1 =
     (case exec_result l (db st1) s vals of
        ExecOk \<Rightarrow>
          (Returned None, st1\<lparr>db := (db st1)\<lparr>exec_calls := exec_calls (db st1) @ [(s, vals)]\<rparr>\<rparr>)
      | ExecErr err \<Rightarrow>
          (Returned (Some err),
           st1\<lparr>db := (db st1)\<lparr>exec_calls := exec_calls (db st1) @ [(s, vals)]\<rparr>,
              log := log st1 @ [LogInsertProblem err]\<rparr>)
      | ExecPanic r \<Rightarrow>
          (Panicked ''query failed'',
           st1\<lparr>db := (db st1)\<lparr>exec_calls := exec_calls (db st1) @ [(s, vals)]\<rparr>,
              log := log st1 @ [LogRecovered r, LogInsertPanic r (strings_sum vals) None]\<rparr>))"
  using prepareInsertQuery_again [OF assms, of l cfg]
  by (simp add: doQuery_def doQuery_body_def stmt_Exec_def split: exec_outcome.splits)

lemma save_rcpts_append:
  "save_rcpts l cfg e hash body co (pre @ rcpts) st =
     (case save_rcpts l cfg e hash body co pre st of
        (Returned Forward, st1) \<Rightarrow> save_rcpts l cfg e hash body co rcpts st1
      | (Returned (Reply r err), st1) \<Rightarrow> (Returned (Reply r err), st1)
      | (Panicked r, st1) \<Rightarrow> (Panicked r, st1))"
  by (induction pre arbitrary: st)
     (auto split: exit.splits prod.splits option.splits reply.splits)

lemma row_values_QueuedId:
  "row_values l cfg (e\<lparr>QueuedId := q\<rparr>) hash body co rcpt = row_values l cfg e hash body co rcpt"
  by (cases co)
     (simp_all add: row_values_def fillAddressFromHeader_def Envelope_String_def cong: if_cong)

lemma save_rcpts_QueuedId:
  "save_rcpts l cfg (e\<lparr>QueuedId := q\<rparr>) hash body co rcpts st =
   save_rcpts l cfg e hash body co rcpts st"
  by (induction rcpts arbitrary: st)
     (auto simp: row_values_QueuedId split: exit.splits prod.splits option.splits)

lemma save_rcpts_set_QueuedId:
  "save_rcpts l cfg (set_QueuedId e) hash body co rcpts st =
   save_rcpts l cfg e hash body co rcpts st"
  by (simp add: set_QueuedId_def save_rcpts_QueuedId split: list.splits)

lemma body_mode_set_QueuedId: "body_mode (set_QueuedId e) = body_mode e"
  by (simp add: set_QueuedId_def body_mode_def split: list.splits)

lemma RcptTo_set_QueuedId: "RcptTo (set_QueuedId e) = RcptTo e"
  by (simp add: set_QueuedId_def split: list.splits)

lemma MySql_Process_save:
  assumes "body_mode e = Returned (body, co)"
  shows "MySql_Process l cfg e TaskSaveMail st =
     (fst (save_rcpts l cfg e (first_hash e) body co (RcptTo e) st), set_QueuedId e,
      snd (save_rcpts l cfg e (first_hash e) body co (RcptTo e) st))"
  using assms
  by (simp add: MySql_Process_def Let_def body_mode_set_QueuedId RcptTo_set_QueuedId
        save_rcpts_set_QueuedId split: prod.splits)


subsection \<open>Facts about the encoder, the rows and the save task\<close>

lemma ip2bint_leading_colons_any:
  "ip2bint l (''::'' @ rest) = SetBytes (To4 (ParseIP l (''::'' @ rest)))"
  by (simp add: ip2bint_def Index_def)

lemma ip2bint_samples:
  "Bytes (ip2bint sample_lib ''192.168.1.1'') = [192, 168, 1, 1]
   \<and> ip2bint sample_lib ''fe80::1'' = SetBytes (ParseIP sample_lib ''fe80::1'')
   \<and> length (Bytes (ip2bint sample_lib ''fe80::1'')) = 16"
  by (simp add: sample_defs run_defs Bytes.simps)

lemma MySql_Process_envelope:
  "fst (snd (MySql_Process l cfg e TaskSaveMail st)) = set_QueuedId e"
  by (simp add: MySql_Process_def Let_def split: exit.splits prod.splits)

lemma save_task_at_rcpt:
  assumes "RcptTo e = pre @ rcpt # rest"
    and "body_mode e = Returned (body, co)"
    and "save_rcpts l cfg e (first_hash e) body co pre st = (Returned Forward, st1)"
    and "row_values l cfg e (first_hash e) body co rcpt = Returned vals"
    and "prepareInsertQuery l cfg 1 st1 = (Returned s, st2)"
  shows "MySql_Process l cfg e TaskSaveMail st =
     (case doQuery l cfg 1 s vals st2 of
        (Panicked r, st3) \<Rightarrow> (Panicked r, set_QueuedId e, st3)
      | (Returned (Some err), st3) \<Rightarrow>
          (Returned (Reply (NewResult ''554 Error: could not save email'') StorageError),
           set_QueuedId e, st3)
      | (Returned None, st3) \<Rightarrow>
          (fst (save_rcpts l cfg e (first_hash e) body co rest st3), set_QueuedId e,
           snd (save_rcpts l cfg e (first_hash e) body co rest st3)))"
  using assms
  by (simp add: MySql_Process_save save_rcpts_append split: prod.splits exit.splits option.splits)

lemma doQuery_result:
  "doQuery l cfg c s vals st =
     (case prepareInsertQuery l cfg c st of
        (Panicked r, st1) \<Rightarrow>
          (Panicked ''query failed'',
           st1\<lparr>log := log st1 @ [LogRecovered r, LogInsertPanic r (strings_sum vals) None]\<rparr>)
      | (Returned stm, st1) \<Rightarrow>
          (case exec_result l (db st1) stm vals of
             ExecOk \<Rightarrow>
               (Returned None,
                st1\<lparr>db := (db st1)\<lparr>exec_calls := exec_calls (db st1) @ [(stm, vals)]\<rparr>\<rparr>)
           | ExecErr err \<Rightarrow>
               (Returned (Some err),
                st1\<lparr>db := (db st1)\<lparr>exec_calls := exec_calls (db st1) @ [(stm, vals)]\<rparr>,
                   log := log st1 @ [LogInsertProblem err]\<rparr>)
           | ExecPanic r \<Rightarrow>
               (Panicked ''query failed'',
                st1\<lparr>db := (db st1)\<lparr>exec_calls := exec_calls (db st1) @ [(stm, vals)]\<rparr>,
                   log := log st1 @ [LogRecovered r, LogInsertPanic r (strings_sum vals) None]\<rparr>)))"
  by (simp add: doQuery_def doQuery_body_def stmt_Exec_def
        split: prod.splits exit.splits exec_outcome.splits)

lemma save_task_prepare_panics:
  assumes "RcptTo e = pre @ rcpt # rest"
    and "body_mode e = Returned (body, co)"
    and "save_rcpts l cfg e (first_hash e) body co pre st = (Returned Forward, st1)"
    and "row_values l cfg e (first_hash e) body co rcpt = Returned vals"
    and "prepareInsertQuery l cfg 1 st1 = (Panicked r, st2)"
  shows "MySql_Process l cfg e TaskSaveMail st = (Panicked r, set_QueuedId e, st2)"
  using assms
  by (simp add: MySql_Process_save save_rcpts_append split: prod.splits exit.splits option.splits)

lemma prepareInsertQuery_refused:
  "1 \<le> rows \<Longrightarrow> rows \<le> int (length (cache st)) \<Longrightarrow> cache st ! nat (rows - 1) = None \<Longrightarrow>
   prepare_error l (db st) (insert_sql (MysqlTable cfg) rows) = Some err \<Longrightarrow>
   prepareInsertQuery l cfg rows st =
     (Panicked ''failed while db.Prepare(INSERT...)'',
      st\<lparr>db := (db st)\<lparr>prepare_calls :=
                 prepare_calls (db st) @ [insert_sql (MysqlTable cfg) rows]\<rparr>,
         log := log st @ [LogCannotPrepare err]\<rparr>)"
  by (simp add: prepareInsertQuery_def db_Prepare_def)

lemma fields_columns:
  "fields insert_columns =
     [''`date`'', ''`to`'', ''`from`'', ''`subject`'', ''`body`'', ''`mail`'', ''`spam_score`'',
      ''`hash`'', ''`content_type`'', ''`recipient`'', ''`has_attach`'', ''`ip_addr`'',
      ''`return_path`'', ''`is_tls`'', ''`message_id`'', ''`reply_to`'', ''`sender`'']"
  by (simp add: fields_def insert_columns_def TrimSpace_def trim_runes.simps rune_width_def
        space_runes_def)

lemma fields_values:
  "fields values_tuple =
     [''NOW()'', ''?'', ''?'', ''?'', ''?'', ''?'', ''0'', ''?'', ''?'', ''?'', ''0'', ''?'',
      ''?'', ''?'', ''?'', ''?'', ''?'']"
  by (simp add: fields_def values_tuple_def TrimSpace_def trim_runes.simps rune_width_def
        space_runes_def)

lemma placeholder_columns_eq:
  "placeholder_columns =
     [''`to`'', ''`from`'', ''`subject`'', ''`body`'', ''`mail`'', ''`hash`'', ''`content_type`'',
      ''`recipient`'', ''`ip_addr`'', ''`return_path`'', ''`is_tls`'', ''`message_id`'',
      ''`reply_to`'', ''`sender`'']"
  by (simp add: placeholder_columns_def fields_columns fields_values)

lemma row_values_Returned:
  assumes "row_values l cfg e hash body co rcpt = Returned vals"
  shows "\<exists>to0 mid0 replyTo0 sender0 contentType.
       fillAddressFromHeader l e ''To'' = Returned to0
     \<and> fillAddressFromHeader l e ''Message-Id'' = Returned mid0
     \<and> fillAddressFromHeader l e ''Reply-To'' = Returned replyTo0
     \<and> fillAddressFromHeader l e ''Sender'' = Returned sender0
     \<and> (case Header e ''Content-Type'' of
          None \<Rightarrow> contentType = []
        | Some v \<Rightarrow> first_value v = Returned (hd v) \<and> contentType = trimToLimit (hd v) 255)
     \<and> vals =
         [VString (if trimToLimit to0 255 = []
                   then trimToLimit (TrimSpace (Address_String l rcpt)) 255
                   else trimToLimit to0 255),
          VString (trimToLimit (Address_String l (MailFrom e)) 255),
          VString (trimToLimit (Subject e) 255),
          VString body,
          (if body = ''redis'' then VString []
           else case co of Some c \<Rightarrow> VString c | None \<Rightarrow> VString (Envelope_String e)),
          VString hash,
          VString contentType,
          VString (trimToLimit (TrimSpace (Address_String l rcpt)) 255),
          VBytes (Bytes (ip2bint l (RemoteIP e))),
          VString (trimToLimit (Address_String l (MailFrom e)) 255),
          VBool (TLS e),
          VString (if trimToLimit mid0 255 = []
                   then Sprintf_mid hash (User rcpt) (PrimaryHost cfg)
                   else trimToLimit mid0 255),
          VString (trimToLimit replyTo0 255),
          VString (trimToLimit sender0 255)]"
proof (cases "fillAddressFromHeader l e ''To''")
  case (Panicked r)
  with assms show ?thesis by (simp add: row_values_def exit_bind_def)
next
  case t: (Returned to0)
  show ?thesis
  proof (cases "fillAddressFromHeader l e ''Message-Id''")
    case (Panicked r)
    with assms t show ?thesis by (simp add: row_values_def exit_bind_def Let_def)
  next
    case m: (Returned mid0)
    show ?thesis
    proof (cases "fillAddressFromHeader l e ''Reply-To''")
      case (Panicked r)
      with assms t m show ?thesis by (simp add: row_values_def exit_bind_def Let_def)
    next
      case p: (Returned replyTo0)
      show ?thesis
      proof (cases "fillAddressFromHeader l e ''Sender''")
        case (Panicked r)
        with assms t m p show ?thesis by (simp add: row_values_def exit_bind_def Let_def)
      next
        case d: (Returned sender0)
        show ?thesis
        proof (cases "Header e ''Content-Type''")
          case None
          with assms t m p d show ?thesis
            by (simp add: row_values_def exit_bind_def Let_def split del: if_split cong: if_cong)
        next
          case (Some v)
          show ?thesis
          proof (cases v)
            case Nil
            with assms t m p d Some show ?thesis
              by (simp add: row_values_def exit_bind_def Let_def first_value_def)
          next
            case (Cons v0 vs)
            with assms t m p d Some show ?thesis
              by (simp add: row_values_def exit_bind_def Let_def first_value_def
                    split del: if_split cong: if_cong)
          qed
        qed
      qed
    qed
  qed
qed

lemma row_values_mode:
  "row_values l cfg e hash body co rcpt = Returned vals \<Longrightarrow>
   vals ! 3 = VString body \<and>
   vals ! 4 = (if body = ''redis'' then VString []
               else case co of Some c \<Rightarrow> VString c | None \<Rightarrow> VString (Envelope_String e))"
  by (auto simp: row_values_def exit_bind_def Let_def split: exit.splits option.splits)

lemma body_mode_returns:
  "Values e ''zlib-compressor'' \<noteq> Some OtherValue \<Longrightarrow> \<exists>body co. body_mode e = Returned (body, co)"
  by (auto simp: body_mode_def exit_bind_def split: option.splits any.splits)

lemma fill_unparsable:
  "Header e k = Some (v # vs) \<Longrightarrow> NewAddress l v = None \<Longrightarrow>
   fillAddressFromHeader l e k = Returned []"
  by (simp add: fillAddressFromHeader_def first_value_def exit_bind_def)

lemma fill_absent: "Header e k = None \<Longrightarrow> fillAddressFromHeader l e k = Returned []"
  by (simp add: fillAddressFromHeader_def)

lemma fill_other:
  "k' \<noteq> k \<Longrightarrow>
   fillAddressFromHeader l (e\<lparr>Header := (Header e)(k := None)\<rparr>) k' = fillAddressFromHeader l e k'"
  by (simp add: fillAddressFromHeader_def)

lemma fill_removed:
  "fillAddressFromHeader l (e\<lparr>Header := (Header e)(k := None)\<rparr>) k = Returned []"
  by (simp add: fillAddressFromHeader_def)

lemma row_values_unparsable:
  assumes "k \<in> {''Message-Id'', ''To'', ''Reply-To'', ''Sender''}"
    and "Header e k = Some (v # vs)" and "NewAddress l v = None"
  shows "row_values l cfg e hash body co rcpt =
         row_values l cfg (e\<lparr>Header := (Header e)(k := None)\<rparr>) hash body co rcpt"
proof -
  have f: "fillAddressFromHeader l e k = Returned []"
    using assms(2,3) by (rule fill_unparsable)
  from assms(1) consider "k = ''Message-Id''" | "k = ''To''" | "k = ''Reply-To''" | "k = ''Sender''"
    by auto
  then show ?thesis
  proof cases
    case 1
    with f show ?thesis
      by (simp add: row_values_def fill_other fill_removed Envelope_String_def
            cong: if_cong option.case_cong)
  next
    case 2
    with f show ?thesis
      by (simp add: row_values_def fill_other fill_removed Envelope_String_def
            cong: if_cong option.case_cong)
  next
    case 3
    with f show ?thesis
      by (simp add: row_values_def fill_other fill_removed Envelope_String_def
            cong: if_cong option.case_cong)
  next
    case 4
    with f show ?thesis
      by (simp add: row_values_def fill_other fill_removed Envelope_String_def
            cong: if_cong option.case_cong)
  qed
qed

lemma row_values_columns:
  assumes "row_values l cfg e hash body co rcpt = Returned vals"
  shows "(fillAddressFromHeader l e ''To'' = Returned [] \<longrightarrow>
            vals ! 0 = VString (trimToLimit (TrimSpace (Address_String l rcpt)) 255))
       \<and> (fillAddressFromHeader l e ''Message-Id'' = Returned [] \<longrightarrow>
            vals ! 11 = VString (Sprintf_mid hash (User rcpt) (PrimaryHost cfg)))
       \<and> (fillAddressFromHeader l e ''Reply-To'' = Returned [] \<longrightarrow> vals ! 12 = VString [])
       \<and> (fillAddressFromHeader l e ''Sender'' = Returned [] \<longrightarrow> vals ! 13 = VString [])"
  using assms
  by (auto simp: row_values_def exit_bind_def Let_def trimToLimit_def
           split: exit.splits option.splits)

section \<open>The claims\<close>

subsection \<open>C1: a fault during an insert\<close>

text \<open>
  C1, as stated, fails: a fault raised during the execution of an insert is not turned into
  an error value. The deferred function of \<^verbatim>\<open>doQuery\<close> recovers it, logs it, and panics
  again, so the fault leaves \<^verbatim>\<open>doQuery\<close> and the processor function. With a driver
  whose \<^verbatim>\<open>Exec\<close> panics the save task ends in the panic \<^verbatim>\<open>"query failed"\<close>; so does
  \<^verbatim>\<open>doQuery\<close> for zero rows, where \<^verbatim>\<open>prepareInsertQuery\<close> itself panics.
\<close>

theorem save_task_panics_on_fault:
  "fst (MySql_Process panicking_lib sample_config hashed_mail TaskSaveMail (fresh_state 50)) =
     Panicked ''query failed''
   \<and> fst (doQuery sample_lib sample_config 0 0 [] (fresh_state 50)) = Panicked ''query failed''"
  by (simp add: sample_defs run_defs Bytes.simps)

text \<open>
  C1, amended: \<^verbatim>\<open>doQuery\<close> returns the error the store reports for the insert, and nil
  when the insert succeeds. A fault raised inside \<^verbatim>\<open>doQuery\<close>, by its own preparation of
  the statement or by \<^verbatim>\<open>Exec\<close>, is recovered by the deferred function, logged together
  with the total length of the string values, and raised again as the panic
  \<^verbatim>\<open>"query failed"\<close>; no other panic value leaves \<^verbatim>\<open>doQuery\<close>. A save task prepares
  the statement before it calls \<^verbatim>\<open>doQuery\<close>, so what \<^verbatim>\<open>doQuery\<close> recovers there is a
  panic of \<^verbatim>\<open>Exec\<close>: the task then ends in the panic \<^verbatim>\<open>"query failed"\<close>, which leaves the
  processor function, and no insert is made for a later recipient. A refused \<^verbatim>\<open>Prepare\<close>
  in that first preparation is not recovered at all: the task ends in the panic of
  \<^verbatim>\<open>prepareInsertQuery\<close>, with the refusal as the only log entry and no \<^verbatim>\<open>Exec\<close>.
\<close>

theorem insert_fault_is_raised_again:
  "doQuery l cfg c s' vals' st' =
     (case prepareInsertQuery l cfg c st' of
        (Panicked r, st1) \<Rightarrow>
          (Panicked ''query failed'',
           st1\<lparr>log := log st1 @ [LogRecovered r, LogInsertPanic r (strings_sum vals') None]\<rparr>)
      | (Returned stm, st1) \<Rightarrow>
          (case exec_result l (db st1) stm vals' of
             ExecOk \<Rightarrow>
               (Returned None,
                st1\<lparr>db := (db st1)\<lparr>exec_calls := exec_calls (db st1) @ [(stm, vals')]\<rparr>\<rparr>)
           | ExecErr err \<Rightarrow>
               (Returned (Some err),
                st1\<lparr>db := (db st1)\<lparr>exec_calls := exec_calls (db st1) @ [(stm, vals')]\<rparr>,
                   log := log st1 @ [LogInsertProblem err]\<rparr>)
           | ExecPanic r \<Rightarrow>
               (Panicked ''query failed'',
                st1\<lparr>db := (db st1)\<lparr>exec_calls := exec_calls (db st1) @ [(stm, vals')]\<rparr>,
                   log := log st1 @ [LogRecovered r, LogInsertPanic r (strings_sum vals') None]\<rparr>)))
   \<and> (RcptTo e = pre @ rcpt # rest
        \<and> body_mode e = Returned (body, co)
        \<and> save_rcpts l cfg e (first_hash e) body co pre st = (Returned Forward, st1)
        \<and> row_values l cfg e (first_hash e) body co rcpt = Returned vals
      \<longrightarrow>
        (prepareInsertQuery l cfg 1 st1 = (Returned s, st2)
            \<and> exec_result l (db st2) s vals = ExecPanic r
          \<longrightarrow> MySql_Process l cfg e TaskSaveMail st =
               (Panicked ''query failed'', set_QueuedId e,
                st2\<lparr>db := (db st2)\<lparr>exec_calls := exec_calls (db st2) @ [(s, vals)]\<rparr>,
                    log := log st2 @ [LogRecovered r, LogInsertPanic r (strings_sum vals) None]\<rparr>))
      \<and> (1 \<le> length (cache st1) \<and> cache st1 ! 0 = None
            \<and> prepare_error l (db st1) (insert_sql (MysqlTable cfg) 1) = Some err
          \<longrightarrow> MySql_Process l cfg e TaskSaveMail st =
               (Panicked ''failed while db.Prepare(INSERT...)'', set_QueuedId e,
                st1\<lparr>db := (db st1)\<lparr>prepare_calls :=
                         prepare_calls (db st1) @ [insert_sql (MysqlTable cfg) 1]\<rparr>,
                    log := log st1 @ [LogCannotPrepare err]\<rparr>)))"
proof (intro conjI impI)
  show "doQuery l cfg c s' vals' st' =
     (case prepareInsertQuery l cfg c st' of
        (Panicked r, st1) \<Rightarrow>
          (Panicked ''query failed'',
           st1\<lparr>log := log st1 @ [LogRecovered r, LogInsertPanic r (strings_sum vals') None]\<rparr>)
      | (Returned stm, st1) \<Rightarrow>
          (case exec_result l (db st1) stm vals' of
             ExecOk \<Rightarrow>
               (Returned None,
                st1\<lparr>db := (db st1)\<lparr>exec_calls := exec_calls (db st1) @ [(stm, vals')]\<rparr>\<rparr>)
           | ExecErr err \<Rightarrow>
               (Returned (Some err),
                st1\<lparr>db := (db st1)\<lparr>exec_calls := exec_calls (db st1) @ [(stm, vals')]\<rparr>,
                   log := log st1 @ [LogInsertProblem err]\<rparr>)
           | ExecPanic r \<Rightarrow>
               (Panicked ''query failed'',
                st1\<lparr>db := (db st1)\<lparr>exec_calls := exec_calls (db st1) @ [(stm, vals')]\<rparr>,
                   log := log st1 @ [LogRecovered r, LogInsertPanic r (strings_sum vals') None]\<rparr>)))"
    by (rule doQuery_result)
next
  assume a: "RcptTo e = pre @ rcpt # rest
        \<and> body_mode e = Returned (body, co)
        \<and> save_rcpts l cfg e (first_hash e) body co pre st = (Returned Forward, st1)
        \<and> row_values l cfg e (first_hash e) body co rcpt = Returned vals"
    and b: "prepareInsertQuery l cfg 1 st1 = (Returned s, st2)
            \<and> exec_result l (db st2) s vals = ExecPanic r"
  from a have a1: "RcptTo e = pre @ rcpt # rest"
    and a2: "body_mode e = Returned (body, co)"
    and a3: "save_rcpts l cfg e (first_hash e) body co pre st = (Returned Forward, st1)"
    and a4: "row_values l cfg e (first_hash e) body co rcpt = Returned vals"
    by simp_all
  from b have p: "prepareInsertQuery l cfg 1 st1 = (Returned s, st2)"
    and x: "exec_result l (db st2) s vals = ExecPanic r" by simp_all
  have d: "doQuery l cfg 1 s vals st2 =
      (Panicked ''query failed'',
       st2\<lparr>db := (db st2)\<lparr>exec_calls := exec_calls (db st2) @ [(s, vals)]\<rparr>,
           log := log st2 @ [LogRecovered r, LogInsertPanic r (strings_sum vals) None]\<rparr>)"
    using doQuery_after_prepare [OF p, of s vals] x by simp
  show "MySql_Process l cfg e TaskSaveMail st =
           (Panicked ''query failed'', set_QueuedId e,
            st2\<lparr>db := (db st2)\<lparr>exec_calls := exec_calls (db st2) @ [(s, vals)]\<rparr>,
                log := log st2 @ [LogRecovered r, LogInsertPanic r (strings_sum vals) None]\<rparr>)"
    using save_task_at_rcpt [OF a1 a2 a3 a4 p] d by simp
next
  assume a: "RcptTo e = pre @ rcpt # rest
        \<and> body_mode e = Returned (body, co)
        \<and> save_rcpts l cfg e (first_hash e) body co pre st = (Returned Forward, st1)
        \<and> row_values l cfg e (first_hash e) body co rcpt = Returned vals"
    and b: "1 \<le> length (cache st1) \<and> cache st1 ! 0 = None
            \<and> prepare_error l (db st1) (insert_sql (MysqlTable cfg) 1) = Some err"
  from a have a1: "RcptTo e = pre @ rcpt # rest"
    and a2: "body_mode e = Returned (body, co)"
    and a3: "save_rcpts l cfg e (first_hash e) body co pre st = (Returned Forward, st1)"
    and a4: "row_values l cfg e (first_hash e) body co rcpt = Returned vals"
    by simp_all
  from b have p: "prepareInsertQuery l cfg 1 st1 =
     (Panicked ''failed while db.Prepare(INSERT...)'',
      st1\<lparr>db := (db st1)\<lparr>prepare_calls :=
                 prepare_calls (db st1) @ [insert_sql (MysqlTable cfg) 1]\<rparr>,
         log := log st1 @ [LogCannotPrepare err]\<rparr>)"
    by (intro prepareInsertQuery_refused) simp_all
  show "MySql_Process l cfg e TaskSaveMail st =
               (Panicked ''failed while db.Prepare(INSERT...)'', set_QueuedId e,
                st1\<lparr>db := (db st1)\<lparr>prepare_calls :=
                         prepare_calls (db st1) @ [insert_sql (MysqlTable cfg) 1]\<rparr>,
                    log := log st1 @ [LogCannotPrepare err]\<rparr>)"
    by (rule save_task_prepare_panics [OF a1 a2 a3 a4 p])
qed

theorem insert_fault_is_raised_again_witness:
  "doQuery refusing_lib sample_config 1 0 [VString ''abc'', VBool True] (fresh_state 50) =
     (Panicked ''query failed'',
      (fresh_state 50)\<lparr>db := \<lparr>prepare_calls = [insert_sql ''new_mail'' 1], exec_calls = []\<rparr>,
         log := [LogCannotPrepare ''Error 1146: Table does not exist'',
                 LogRecovered ''failed while db.Prepare(INSERT...)'',
                 LogInsertPanic ''failed while db.Prepare(INSERT...)'' 3 None]\<rparr>)
   \<and> fst (MySql_Process second_panics_lib sample_config three_rcpt_mail TaskSaveMail (fresh_state 50))
       = Panicked ''query failed''
   \<and> log (snd (snd (MySql_Process second_panics_lib sample_config three_rcpt_mail TaskSaveMail
        (fresh_state 50))))
       = [LogRecovered ''runtime error: invalid memory address or nil pointer dereference'',
          LogInsertPanic ''runtime error: invalid memory address or nil pointer dereference''
            185 None]
   \<and> map (\<lambda>(s, vals). vals ! 7)
        (exec_calls (db (snd (snd (MySql_Process second_panics_lib sample_config three_rcpt_mail
           TaskSaveMail (fresh_state 50))))))
       = [VString ''alice@example.com'', VString ''bob@example.com'']
   \<and> MySql_Process refusing_lib sample_config three_rcpt_mail TaskSaveMail (fresh_state 50)
       = (Panicked ''failed while db.Prepare(INSERT...)'', set_QueuedId three_rcpt_mail,
          (fresh_state 50)\<lparr>db := \<lparr>prepare_calls = [insert_sql ''new_mail'' 1], exec_calls = []\<rparr>,
             log := [LogCannotPrepare ''Error 1146: Table does not exist'']\<rparr>)"
proof -
  define vals where "vals =
       [VString ''bob@example.com'', VString ''bob@example.com'', VString ''hi'', VString [],
        VString ''Delivered-To: alice@example.com; hello'',
        VString ''5d41402abc4b2a76b9719d911017c592'', VString [],
        VString ''bob@example.com'', VBytes [192, 168, 1, 1], VString ''bob@example.com'',
        VBool False, VString ''5d41402abc4b2a76b9719d911017c592.bob@mail.example.com'',
        VString [], VString []]"
  define avals where "avals =
       [VString ''alice@example.com'', VString ''bob@example.com'', VString ''hi'', VString [],
        VString ''Delivered-To: alice@example.com; hello'',
        VString ''5d41402abc4b2a76b9719d911017c592'', VString [],
        VString ''alice@example.com'', VBytes [192, 168, 1, 1], VString ''bob@example.com'',
        VBool False, VString ''5d41402abc4b2a76b9719d911017c592.alice@mail.example.com'',
        VString [], VString []]"
  define st1 where "st1 = snd (save_rcpts second_panics_lib sample_config three_rcpt_mail
      (first_hash three_rcpt_mail) [] None [alice] (fresh_state 50))"
  have q: "prepareInsertQuery refusing_lib sample_config 1 (fresh_state 50) =
     (Panicked ''failed while db.Prepare(INSERT...)'',
      (fresh_state 50)\<lparr>db := \<lparr>prepare_calls = [insert_sql ''new_mail'' 1], exec_calls = []\<rparr>,
         log := [LogCannotPrepare ''Error 1146: Table does not exist'']\<rparr>)"
    by (simp add: sample_defs prepareInsertQuery_def db_Prepare_def)
  have a1: "RcptTo three_rcpt_mail = [alice] @ bob # [carol]"
    by (simp add: three_rcpt_mail_def)
  have a2: "body_mode three_rcpt_mail = Returned ([], None)"
    by (simp add: three_rcpt_mail_def hashed_mail_def plain_mail_def body_mode_def exit_bind_def)
  have a3: "save_rcpts second_panics_lib sample_config three_rcpt_mail (first_hash three_rcpt_mail)
              [] None [alice] (fresh_state 50) = (Returned Forward, st1)"
    unfolding st1_def by (simp add: sample_defs run_defs Bytes.simps)
  have a4: "row_values second_panics_lib sample_config three_rcpt_mail (first_hash three_rcpt_mail)
              [] None bob = Returned vals"
    unfolding vals_def by (simp add: sample_defs run_defs Bytes.simps)
  have e1: "map (\<lambda>(s, vals). vals ! 7) (exec_calls (db st1)) = [VString ''alice@example.com'']"
      "log st1 = []"
    unfolding st1_def by (simp_all add: sample_defs run_defs Bytes.simps)
  have a5: "prepareInsertQuery second_panics_lib sample_config 1 st1 = (Returned 0, st1)"
    unfolding st1_def by (simp add: sample_defs run_defs Bytes.simps)
  have a6: "exec_result second_panics_lib (db st1) 0 vals
              = ExecPanic ''runtime error: invalid memory address or nil pointer dereference''"
    unfolding st1_def by (simp add: sample_defs run_defs Bytes.simps)
  have s: "strings_sum vals = 185" "strings_sum [VString ''abc'', VBool True] = 3"
    unfolding vals_def by (simp_all add: strings_sum_def)
  have b1: "RcptTo three_rcpt_mail = [] @ alice # [bob, carol]"
    by (simp add: three_rcpt_mail_def)
  have b3: "save_rcpts refusing_lib sample_config three_rcpt_mail (first_hash three_rcpt_mail)
              [] None [] (fresh_state 50) = (Returned Forward, fresh_state 50)"
    by simp
  have b4: "row_values refusing_lib sample_config three_rcpt_mail (first_hash three_rcpt_mail)
              [] None alice = Returned avals"
    unfolding avals_def by (simp add: sample_defs run_defs Bytes.simps)
  have b5: "1 \<le> length (cache (fresh_state 50))" "cache (fresh_state 50) ! 0 = None"
      "prepare_error refusing_lib (db (fresh_state 50)) (insert_sql (MysqlTable sample_config) 1)
         = Some ''Error 1146: Table does not exist''"
    by (simp_all add: sample_defs)
  have f: "db (fresh_state 50) = \<lparr>prepare_calls = [], exec_calls = []\<rparr>" "log (fresh_state 50) = []"
      "MysqlTable sample_config = ''new_mail''"
    by (simp_all add: fresh_state_def sample_config_def)
  note t1 = insert_fault_is_raised_again [where l = refusing_lib and cfg = sample_config
        and c = 1 and s' = 0 and vals' = "[VString ''abc'', VBool True]" and st' = "fresh_state 50"
        and e = three_rcpt_mail and pre = "[]" and rcpt = alice and rest = "[bob, carol]"
        and body = "[]" and co = None and st = "fresh_state 50" and ?st1.0 = "fresh_state 50"
        and vals = avals and err = "''Error 1146: Table does not exist''"]
  note t2 = insert_fault_is_raised_again [where l = second_panics_lib and cfg = sample_config
        and e = three_rcpt_mail and pre = "[alice]" and rcpt = bob and rest = "[carol]"
        and body = "[]" and co = None and st = "fresh_state 50" and ?st1.0 = st1
        and vals = vals and s = 0 and ?st2.0 = st1
        and r = "''runtime error: invalid memory address or nil pointer dereference''"]
  from t1 q s f have c1: "doQuery refusing_lib sample_config 1 0 [VString ''abc'', VBool True] (fresh_state 50) =
     (Panicked ''query failed'',
      (fresh_state 50)\<lparr>db := \<lparr>prepare_calls = [insert_sql ''new_mail'' 1], exec_calls = []\<rparr>,
         log := [LogCannotPrepare ''Error 1146: Table does not exist'',
                 LogRecovered ''failed while db.Prepare(INSERT...)'',
                 LogInsertPanic ''failed while db.Prepare(INSERT...)'' 3 None]\<rparr>)"
    by simp
  from t1 b1 a2 b3 b4 b5 f have c3: "MySql_Process refusing_lib sample_config three_rcpt_mail TaskSaveMail (fresh_state 50)
       = (Panicked ''failed while db.Prepare(INSERT...)'', set_QueuedId three_rcpt_mail,
          (fresh_state 50)\<lparr>db := \<lparr>prepare_calls = [insert_sql ''new_mail'' 1], exec_calls = []\<rparr>,
             log := [LogCannotPrepare ''Error 1146: Table does not exist'']\<rparr>)"
    by simp
  from t2 a1 a2 a3 a4 a5 a6 have c2: "MySql_Process second_panics_lib sample_config three_rcpt_mail
      TaskSaveMail (fresh_state 50) =
           (Panicked ''query failed'', set_QueuedId three_rcpt_mail,
            st1\<lparr>db := (db st1)\<lparr>exec_calls := exec_calls (db st1) @ [(0, vals)]\<rparr>,
                log := log st1 @ [LogRecovered ''runtime error: invalid memory address or nil pointer dereference'',
                  LogInsertPanic ''runtime error: invalid memory address or nil pointer dereference'' (strings_sum vals) None]\<rparr>)"
    by simp
  show ?thesis
    using c1 c2 c3 e1 s by (simp add: vals_def)
qed

subsection \<open>C2: the IP encoder\<close>

text \<open>
  C2: a text that contains \<^verbatim>\<open>"::"\<close> is encoded from the 16-byte form of the address, any
  other text from the 4-byte form. The code tests \<^verbatim>\<open>strings.Index(ip, "::") > 0\<close>, and the
  index of a leading \<^verbatim>\<open>"::"\<close> is 0: for \<^verbatim>\<open>"::1"\<close> the encoder takes the 4-byte branch,
  \<^verbatim>\<open>To4\<close> of the loopback address is nil, and the result is the integer 0, whose bytes are
  the empty slice. The 16-byte branch would have given the integer 1.
\<close>

theorem ip2bint_loopback:
  "Index ''::1'' ''::'' = 0
   \<and> ip2bint sample_lib ''::1'' = SetBytes (To4 (ParseIP sample_lib ''::1''))
   \<and> ip2bint sample_lib ''::1'' = 0
   \<and> Bytes (ip2bint sample_lib ''::1'') = []
   \<and> SetBytes (To16 (ParseIP sample_lib ''::1'')) = 1
   \<and> Bytes (SetBytes (To16 (ParseIP sample_lib ''::1''))) = [1]"
  by (simp add: sample_defs run_defs Bytes.simps)

subsection \<open>C3: the queued id\<close>

text \<open>
  C3, as stated, fails: the queued id is assigned before the loop over the recipients, so
  a save task that ends in the storage failure has changed it. Here the only insert fails,
  and the envelope, which came with an empty queued id, leaves with the hash in it.
\<close>

theorem queued_id_set_before_failure:
  "fst (MySql_Process failing_lib sample_config hashed_mail TaskSaveMail (fresh_state 50)) =
     Returned (Reply (NewResult ''554 Error: could not save email'') StorageError)
   \<and> QueuedId hashed_mail = []
   \<and> QueuedId (fst (snd (MySql_Process failing_lib sample_config hashed_mail TaskSaveMail
        (fresh_state 50)))) = ''5d41402abc4b2a76b9719d911017c592''"
  by (simp add: sample_defs run_defs Bytes.simps)

text \<open>
  C3, amended: a save task sets the queued id to the first hash, when there is one, before
  the first insert, and leaves it unchanged when there is none; the envelope keeps that
  queued id however the task ends (forward, storage failure or panic).
\<close>

theorem queued_id_set_first:
  "fst (snd (MySql_Process l cfg e TaskSaveMail st)) = set_QueuedId e
   \<and> QueuedId (set_QueuedId e) = (case Hashes e of [] \<Rightarrow> QueuedId e | h # _ \<Rightarrow> h)"
  by (simp add: MySql_Process_envelope set_QueuedId_def split: list.splits)

theorem queued_id_set_first_witness:
  "QueuedId (fst (snd (MySql_Process second_fails_lib sample_config three_rcpt_mail TaskSaveMail
      (fresh_state 50)))) = ''5d41402abc4b2a76b9719d911017c592''
   \<and> QueuedId (fst (snd (MySql_Process sample_lib sample_config plain_mail TaskSaveMail
      (fresh_state 50)))) = QueuedId plain_mail"
  using queued_id_set_first [of second_fails_lib sample_config three_rcpt_mail "fresh_state 50"]
        queued_id_set_first [of sample_lib sample_config plain_mail "fresh_state 50"]
  by (simp add: three_rcpt_mail_def hashed_mail_def plain_mail_def)

subsection \<open>C4: the length of the message id\<close>

text \<open>
  C4: the message id of a row has at most 255 characters. The value taken from the
  \<^verbatim>\<open>Message-Id\<close> header goes through \<^verbatim>\<open>trimToLimit\<close>, as every other address column
  does, but the synthesized one does not: for a mail with no \<^verbatim>\<open>Message-Id\<close> header and a
  recipient whose local part has 255 characters (the longest that the validation of
  recipients lets through), the message id bound to the statement has 273 characters.
\<close>

theorem synthesized_message_id_not_trimmed:
  "row_values sample_lib sample_config long_mail (first_hash long_mail) [] None (long_user 255) =
     Returned
       [VString (replicate 255 (CHR ''a'')), VString ''bob@example.com'', VString ''hi'', VString [],
        VString ''Delivered-To: alice@example.com; hello'', VString [], VString [],
        VString (replicate 255 (CHR ''a'')), VBytes [192, 168, 1, 1], VString ''bob@example.com'',
        VBool False, VString (''.'' @ replicate 255 (CHR ''a'') @ ''@mail.example.com''),
        VString [], VString []]
   \<and> length (''.'' @ replicate 255 (CHR ''a'') @ ''@mail.example.com'') = 273"
proof -
  have a: "replicate 255 (CHR ''a'') = CHR ''a'' # replicate 254 (CHR ''a'')"
    using replicate_Suc [of 254 "CHR ''a''"] by simp
  have l: "rune_width space_runes (replicate 255 (CHR ''a'') @ ''@example.com'') = 0"
    unfolding a by (simp add: rune_width_def space_runes_def)
  have r: "rune_width (map rev space_runes) (rev (replicate 255 (CHR ''a'') @ ''@example.com'')) = 0"
    by (simp add: rune_width_def space_runes_def)
  have ts: "TrimSpace (replicate 255 (CHR ''a'') @ ''@example.com'')
              = replicate 255 (CHR ''a'') @ ''@example.com''"
    using l r by (rule TrimSpace_plain)
  show ?thesis
    by (simp add: sample_defs row_defs ts Bytes.simps)
qed

subsection \<open>C5: the width of a row\<close>

text \<open>
  C5, as stated, fails: a row has 14 values and the value tuple of the statement has 14
  placeholders, not 17.
\<close>

theorem row_of_plain_mail_has_14_values:
  "row_values sample_lib sample_config plain_mail (first_hash plain_mail) [] None alice =
     Returned
       [VString ''alice@example.com'', VString ''bob@example.com'', VString ''hi'', VString [],
        VString ''Delivered-To: alice@example.com; hello'', VString [], VString [],
        VString ''alice@example.com'', VBytes [192, 168, 1, 1], VString ''bob@example.com'',
        VBool False, VString ''.alice@mail.example.com'', VString [], VString []]
   \<and> count_list (insert_sql ''new_mail'' 1) (CHR ''?'') = 14
   \<and> count_list (insert_sql ''new_mail'' 1) (CHR ''?'') \<noteq> 17 * 1"
  by (simp add: sample_defs run_defs Bytes.simps insert_sql_def insert_head_def insert_columns_def
        values_tuple_def)

text \<open>
  C5, amended: whenever the values of a recipient's row are built, they are exactly 14
  values, bound in this order to the columns \<^verbatim>\<open>to\<close> (the \<^verbatim>\<open>To\<close> header's address, or the
  recipient when that is empty), \<^verbatim>\<open>from\<close>, \<^verbatim>\<open>subject\<close>, \<^verbatim>\<open>body\<close> (the marker), \<^verbatim>\<open>mail\<close>
  (the blob), \<^verbatim>\<open>hash\<close>, \<^verbatim>\<open>content_type\<close>, \<^verbatim>\<open>recipient\<close>, \<^verbatim>\<open>ip_addr\<close> (the bytes of the
  encoded remote address), \<^verbatim>\<open>return_path\<close>, \<^verbatim>\<open>is_tls\<close>, \<^verbatim>\<open>message_id\<close>, \<^verbatim>\<open>reply_to\<close> and
  \<^verbatim>\<open>sender\<close>. The statement names 17 columns; in each value tuple \<^verbatim>\<open>date\<close>,
  \<^verbatim>\<open>spam_score\<close> and \<^verbatim>\<open>has_attach\<close> take the literals \<^verbatim>\<open>NOW()\<close>, \<^verbatim>\<open>0\<close> and \<^verbatim>\<open>0\<close> and the
  other 14 columns a placeholder. The statement for \<open>rows\<close> rows is the head followed by
  \<open>rows\<close> such tuples, so it has \<open>14 * rows\<close> placeholders (besides what the table
  name may contain).
\<close>

theorem row_values_and_placeholders:
  "(row_values l cfg e hash body co rcpt = Returned vals \<longrightarrow>
      (\<exists>to0 mid0 replyTo0 sender0 contentType.
         fillAddressFromHeader l e ''To'' = Returned to0
       \<and> fillAddressFromHeader l e ''Message-Id'' = Returned mid0
       \<and> fillAddressFromHeader l e ''Reply-To'' = Returned replyTo0
       \<and> fillAddressFromHeader l e ''Sender'' = Returned sender0
       \<and> (case Header e ''Content-Type'' of
            None \<Rightarrow> contentType = []
          | Some v \<Rightarrow> first_value v = Returned (hd v) \<and> contentType = trimToLimit (hd v) 255)
       \<and> length vals = 14
       \<and> zip placeholder_columns vals =
           [(''`to`'', VString (if trimToLimit to0 255 = []
                                then trimToLimit (TrimSpace (Address_String l rcpt)) 255
                                else trimToLimit to0 255)),
            (''`from`'', VString (trimToLimit (Address_String l (MailFrom e)) 255)),
            (''`subject`'', VString (trimToLimit (Subject e) 255)),
            (''`body`'', VString body),
            (''`mail`'', if body = ''redis'' then VString []
                         else case co of
                           Some c \<Rightarrow> VString c
                         | None \<Rightarrow> VString (Envelope_String e)),
            (''`hash`'', VString hash),
            (''`content_type`'', VString contentType),
            (''`recipient`'', VString (trimToLimit (TrimSpace (Address_String l rcpt)) 255)),
            (''`ip_addr`'', VBytes (Bytes (ip2bint l (RemoteIP e)))),
            (''`return_path`'', VString (trimToLimit (Address_String l (MailFrom e)) 255)),
            (''`is_tls`'', VBool (TLS e)),
            (''`message_id`'', VString (if trimToLimit mid0 255 = []
                                        then Sprintf_mid hash (User rcpt) (PrimaryHost cfg)
                                        else trimToLimit mid0 255)),
            (''`reply_to`'', VString (trimToLimit replyTo0 255)),
            (''`sender`'', VString (trimToLimit sender0 255))]))
   \<and> zip (fields insert_columns) (fields values_tuple) =
        [(''`date`'', ''NOW()''), (''`to`'', ''?''), (''`from`'', ''?''), (''`subject`'', ''?''),
         (''`body`'', ''?''), (''`mail`'', ''?''), (''`spam_score`'', ''0''), (''`hash`'', ''?''),
         (''`content_type`'', ''?''), (''`recipient`'', ''?''), (''`has_attach`'', ''0''),
         (''`ip_addr`'', ''?''), (''`return_path`'', ''?''), (''`is_tls`'', ''?''),
         (''`message_id`'', ''?''), (''`reply_to`'', ''?''), (''`sender`'', ''?'')]
   \<and> (1 \<le> rows \<longrightarrow>
        insert_sql table rows =
          ''INSERT INTO '' @ table @ '' '' @ insert_columns @ '' VALUES ''
          @ values_tuple @ concat (replicate (nat rows - 1) ('','' @ values_tuple)))
   \<and> count_list (insert_sql table rows) (CHR ''?'') = count_list table (CHR ''?'') + 14 * nat rows"
proof (intro conjI impI)
  assume r: "row_values l cfg e hash body co rcpt = Returned vals"
  from row_values_Returned [OF r] obtain to0 mid0 replyTo0 sender0 contentType where
    f: "fillAddressFromHeader l e ''To'' = Returned to0"
       "fillAddressFromHeader l e ''Message-Id'' = Returned mid0"
       "fillAddressFromHeader l e ''Reply-To'' = Returned replyTo0"
       "fillAddressFromHeader l e ''Sender'' = Returned sender0"
       "case Header e ''Content-Type'' of
            None \<Rightarrow> contentType = []
          | Some v \<Rightarrow> first_value v = Returned (hd v) \<and> contentType = trimToLimit (hd v) 255"
    and v: "vals =
         [VString (if trimToLimit to0 255 = []
                   then trimToLimit (TrimSpace (Address_String l rcpt)) 255
                   else trimToLimit to0 255),
          VString (trimToLimit (Address_String l (MailFrom e)) 255),
          VString (trimToLimit (Subject e) 255),
          VString body,
          (if body = ''redis'' then VString []
           else case co of Some c \<Rightarrow> VString c | None \<Rightarrow> VString (Envelope_String e)),
          VString hash,
          VString contentType,
          VString (trimToLimit (TrimSpace (Address_String l rcpt)) 255),
          VBytes (Bytes (ip2bint l (RemoteIP e))),
          VString (trimToLimit (Address_String l (MailFrom e)) 255),
          VBool (TLS e),
          VString (if trimToLimit mid0 255 = []
                   then Sprintf_mid hash (User rcpt) (PrimaryHost cfg)
                   else trimToLimit mid0 255),
          VString (trimToLimit replyTo0 255),
          VString (trimToLimit sender0 255)]"
    by blast
  have z: "length vals = 14
       \<and> zip placeholder_columns vals =
           [(''`to`'', VString (if trimToLimit to0 255 = []
                                then trimToLimit (TrimSpace (Address_String l rcpt)) 255
                                else trimToLimit to0 255)),
            (''`from`'', VString (trimToLimit (Address_String l (MailFrom e)) 255)),
            (''`subject`'', VString (trimToLimit (Subject e) 255)),
            (''`body`'', VString body),
            (''`mail`'', if body = ''redis'' then VString []
                         else case co of
                           Some c \<Rightarrow> VString c
                         | None \<Rightarrow> VString (Envelope_String e)),
            (''`hash`'', VString hash),
            (''`content_type`'', VString contentType),
            (''`recipient`'', VString (trimToLimit (TrimSpace (Address_String l rcpt)) 255)),
            (''`ip_addr`'', VBytes (Bytes (ip2bint l (RemoteIP e)))),
            (''`return_path`'', VString (trimToLimit (Address_String l (MailFrom e)) 255)),
            (''`is_tls`'', VBool (TLS e)),
            (''`message_id`'', VString (if trimToLimit mid0 255 = []
                                        then Sprintf_mid hash (User rcpt) (PrimaryHost cfg)
                                        else trimToLimit mid0 255)),
            (''`reply_to`'', VString (trimToLimit replyTo0 255)),
            (''`sender`'', VString (trimToLimit sender0 255))]"
    unfolding v placeholder_columns_eq by simp
  from f z show "\<exists>to0 mid0 replyTo0 sender0 contentType.
         fillAddressFromHeader l e ''To'' = Returned to0
       \<and> fillAddressFromHeader l e ''Message-Id'' = Returned mid0
       \<and> fillAddressFromHeader l e ''Reply-To'' = Returned replyTo0
       \<and> fillAddressFromHeader l e ''Sender'' = Returned sender0
       \<and> (case Header e ''Content-Type'' of
            None \<Rightarrow> contentType = []
          | Some v \<Rightarrow> first_value v = Returned (hd v) \<and> contentType = trimToLimit (hd v) 255)
       \<and> length vals = 14
       \<and> zip placeholder_columns vals =
           [(''`to`'', VString (if trimToLimit to0 255 = []
                                then trimToLimit (TrimSpace (Address_String l rcpt)) 255
                                else trimToLimit to0 255)),
            (''`from`'', VString (trimToLimit (Address_String l (MailFrom e)) 255)),
            (''`subject`'', VString (trimToLimit (Subject e) 255)),
            (''`body`'', VString body),
            (''`mail`'', if body = ''redis'' then VString []
                         else case co of
                           Some c \<Rightarrow> VString c
                         | None \<Rightarrow> VString (Envelope_String e)),
            (''`hash`'', VString hash),
            (''`content_type`'', VString contentType),
            (''`recipient`'', VString (trimToLimit (TrimSpace (Address_String l rcpt)) 255)),
            (''`ip_addr`'', VBytes (Bytes (ip2bint l (RemoteIP e)))),
            (''`return_path`'', VString (trimToLimit (Address_String l (MailFrom e)) 255)),
            (''`is_tls`'', VBool (TLS e)),
            (''`message_id`'', VString (if trimToLimit mid0 255 = []
                                        then Sprintf_mid hash (User rcpt) (PrimaryHost cfg)
                                        else trimToLimit mid0 255)),
            (''`reply_to`'', VString (trimToLimit replyTo0 255)),
            (''`sender`'', VString (trimToLimit sender0 255))]"
    by blast
next
  show "zip (fields insert_columns) (fields values_tuple) =
        [(''`date`'', ''NOW()''), (''`to`'', ''?''), (''`from`'', ''?''), (''`subject`'', ''?''),
         (''`body`'', ''?''), (''`mail`'', ''?''), (''`spam_score`'', ''0''), (''`hash`'', ''?''),
         (''`content_type`'', ''?''), (''`recipient`'', ''?''), (''`has_attach`'', ''0''),
         (''`ip_addr`'', ''?''), (''`return_path`'', ''?''), (''`is_tls`'', ''?''),
         (''`message_id`'', ''?''), (''`reply_to`'', ''?''), (''`sender`'', ''?'')]"
    unfolding fields_columns fields_values by simp
next
  assume "1 \<le> rows"
  then show "insert_sql table rows =
          ''INSERT INTO '' @ table @ '' '' @ insert_columns @ '' VALUES ''
          @ values_tuple @ concat (replicate (nat rows - 1) ('','' @ values_tuple))"
    by (simp add: insert_sql_tuples insert_head_def)
next
  show "count_list (insert_sql table rows) (CHR ''?'')
          = count_list table (CHR ''?'') + 14 * nat rows"
    by (simp add: insert_sql_def count_add_rows count_insert_head)
qed

theorem row_values_and_placeholders_witness:
  "row_values sample_lib sample_config full_mail (first_hash full_mail) [] None alice =
     Returned
       [VString ''carol@example.org'', VString ''bob@example.com'',
        VString (replicate 255 (CHR ''s'')), VString [],
        VString ''Delivered-To: alice@example.com; hello'',
        VString ''5d41402abc4b2a76b9719d911017c592'', VString ''text/plain; charset=utf-8'',
        VString ''alice@example.com'',
        VBytes [0xfe, 0x80, 0, 0, 0, 0, 0, 0, 0, 0, 0, 0, 0, 0, 0, 1],
        VString ''bob@example.com'', VBool True, VString ''20170101.1@mx.example.org'',
        VString ''dave@example.org'', VString ''erin@example.org'']
   \<and> zip placeholder_columns
        [VString ''carol@example.org'', VString ''bob@example.com'',
         VString (replicate 255 (CHR ''s'')), VString [],
         VString ''Delivered-To: alice@example.com; hello'',
         VString ''5d41402abc4b2a76b9719d911017c592'', VString ''text/plain; charset=utf-8'',
         VString ''alice@example.com'',
         VBytes [0xfe, 0x80, 0, 0, 0, 0, 0, 0, 0, 0, 0, 0, 0, 0, 0, 1],
         VString ''bob@example.com'', VBool True, VString ''20170101.1@mx.example.org'',
         VString ''dave@example.org'', VString ''erin@example.org'']
      = [(''`to`'', VString ''carol@example.org''), (''`from`'', VString ''bob@example.com''),
         (''`subject`'', VString (replicate 255 (CHR ''s''))), (''`body`'', VString []),
         (''`mail`'', VString ''Delivered-To: alice@example.com; hello''),
         (''`hash`'', VString ''5d41402abc4b2a76b9719d911017c592''),
         (''`content_type`'', VString ''text/plain; charset=utf-8''),
         (''`recipient`'', VString ''alice@example.com''),
         (''`ip_addr`'', VBytes [0xfe, 0x80, 0, 0, 0, 0, 0, 0, 0, 0, 0, 0, 0, 0, 0, 1]),
         (''`return_path`'', VString ''bob@example.com''), (''`is_tls`'', VBool True),
         (''`message_id`'', VString ''20170101.1@mx.example.org''),
         (''`reply_to`'', VString ''dave@example.org''),
         (''`sender`'', VString ''erin@example.org'')]
   \<and> insert_sql ''new_mail'' 2 =
       ''INSERT INTO new_mail '' @ insert_columns @ '' VALUES '' @ values_tuple @ '','' @ values_tuple
   \<and> count_list (insert_sql ''new_mail'' 2) (CHR ''?'') = 28"
proof -
  define vals where "vals =
       [VString ''carol@example.org'', VString ''bob@example.com'',
        VString (replicate 255 (CHR ''s'')), VString [],
        VString ''Delivered-To: alice@example.com; hello'',
        VString ''5d41402abc4b2a76b9719d911017c592'', VString ''text/plain; charset=utf-8'',
        VString ''alice@example.com'',
        VBytes [0xfe, 0x80, 0, 0, 0, 0, 0, 0, 0, 0, 0, 0, 0, 0, 0, 1],
        VString ''bob@example.com'', VBool True, VString ''20170101.1@mx.example.org'',
        VString ''dave@example.org'', VString ''erin@example.org'']"
  have r: "row_values sample_lib sample_config full_mail (first_hash full_mail) [] None alice
             = Returned vals"
    unfolding vals_def by (simp add: sample_defs run_defs Bytes.simps)
  have f: "fillAddressFromHeader sample_lib full_mail ''To'' = Returned ''carol@example.org''"
      "fillAddressFromHeader sample_lib full_mail ''Message-Id'' = Returned ''20170101.1@mx.example.org''"
      "fillAddressFromHeader sample_lib full_mail ''Reply-To'' = Returned ''dave@example.org''"
      "fillAddressFromHeader sample_lib full_mail ''Sender'' = Returned ''erin@example.org''"
      "Header full_mail ''Content-Type'' = Some [''text/plain; charset=utf-8'']"
    by (simp_all add: sample_defs run_defs)
  have t: "trimToLimit ''carol@example.org'' 255 = ''carol@example.org''"
      "trimToLimit ''20170101.1@mx.example.org'' 255 = ''20170101.1@mx.example.org''"
      "trimToLimit ''dave@example.org'' 255 = ''dave@example.org''"
      "trimToLimit ''erin@example.org'' 255 = ''erin@example.org''"
      "trimToLimit ''text/plain; charset=utf-8'' 255 = ''text/plain; charset=utf-8''"
      "trimToLimit (Address_String sample_lib (MailFrom full_mail)) 255 = ''bob@example.com''"
      "trimToLimit (TrimSpace (Address_String sample_lib alice)) 255 = ''alice@example.com''"
      "trimToLimit (Subject full_mail) 255 = replicate 255 (CHR ''s'')"
      "Bytes (ip2bint sample_lib (RemoteIP full_mail))
         = [0xfe, 0x80, 0, 0, 0, 0, 0, 0, 0, 0, 0, 0, 0, 0, 0, 1]"
      "Envelope_String full_mail = ''Delivered-To: alice@example.com; hello''"
      "first_hash full_mail = ''5d41402abc4b2a76b9719d911017c592''" "TLS full_mail = True"
    by (simp_all add: sample_defs run_defs Bytes.simps)
  have one: "(1::int) \<le> 2" by simp
  show ?thesis
    using row_values_and_placeholders [of sample_lib sample_config full_mail "first_hash full_mail"
        "[]" None alice vals 2 "''new_mail''"] r f t one
    by (auto simp: vals_def)
qed

subsection \<open>C6: the statement cache\<close>

text \<open>
  C6, as stated, fails: the cache is an array indexed by \<^verbatim>\<open>rows-1\<close>, so a row count
  beyond its length panics before anything is compiled. Whatever the length of the array
  (lemma \<open>prepareInsertQuery_beyond\<close>); here it has 50 slots and the call asks for 51 rows.
\<close>

theorem prepareInsertQuery_beyond_cache:
  "prepareInsertQuery sample_lib sample_config 51 (fresh_state 50) =
     (Panicked ''runtime error: index out of range'', fresh_state 50)"
  by (simp add: prepareInsertQuery_def fresh_state_def)

text \<open>
  C6, amended: for a row count from 1 to the length of the cache whose slot is still
  empty, if the store accepts the statement, \<^verbatim>\<open>prepareInsertQuery\<close> compiles one
  statement, whose SQL is the head followed by exactly \<open>rows\<close> value tuples separated by
  commas, and returns it; from then on, whatever calls the processor has served in
  between, a call with the same row count returns this same statement and leaves the
  state as it is, so nothing is compiled again.
\<close>

theorem prepareInsertQuery_compiles_once:
  assumes "1 \<le> rows" and "rows \<le> int (length (cache st))"
    and "cache st ! nat (rows - 1) = None"
    and "prepare_error l (db st) (insert_sql (MysqlTable cfg) rows) = None"
  shows "\<exists>s st1.
     prepareInsertQuery l cfg rows st = (Returned s, st1)
     \<and> prepare_calls (db st1) = prepare_calls (db st) @ [insert_sql (MysqlTable cfg) rows]
     \<and> prepare_calls (db st1) ! s =
         insert_head (MysqlTable cfg) @ values_tuple
         @ concat (replicate (nat rows - 1) ('','' @ values_tuple))
     \<and> (\<forall>st2 l' cfg'. later st1 st2 \<longrightarrow> prepareInsertQuery l' cfg' rows st2 = (Returned s, st2))"
proof -
  let ?s = "length (prepare_calls (db st))"
  let ?st1 = "st\<lparr>cache := (cache st)[nat (rows - 1) := Some ?s],
                db := (db st)\<lparr>prepare_calls :=
                  prepare_calls (db st) @ [insert_sql (MysqlTable cfg) rows]\<rparr>\<rparr>"
  have p: "prepareInsertQuery l cfg rows st = (Returned ?s, ?st1)"
    using assms by (rule prepareInsertQuery_miss)
  have c: "prepare_calls (db ?st1) = prepare_calls (db st) @ [insert_sql (MysqlTable cfg) rows]"
    by simp
  have t: "prepare_calls (db ?st1) ! ?s =
         insert_head (MysqlTable cfg) @ values_tuple
         @ concat (replicate (nat rows - 1) ('','' @ values_tuple))"
    using insert_sql_tuples [OF assms(1), of "MysqlTable cfg"] by simp
  have a: "\<forall>st2 l' cfg'. later ?st1 st2 \<longrightarrow> prepareInsertQuery l' cfg' rows st2 = (Returned ?s, st2)"
    using prepareInsertQuery_later [OF p] by blast
  from p c t a show ?thesis by blast
qed

theorem prepareInsertQuery_compiles_once_witness:
  "(1::int) \<le> 2 \<and> (2::int) \<le> int (length (cache (fresh_state 50)))
   \<and> cache (fresh_state 50) ! nat (2 - 1) = None
   \<and> prepare_error sample_lib (db (fresh_state 50)) (insert_sql (MysqlTable sample_config) 2) = None
   \<and> (\<exists>s. fst (prepareInsertQuery sample_lib sample_config 2 (fresh_state 50)) = Returned s
        \<and> fst (prepareInsertQuery failing_lib sample_config 2
              (snd (snd (MySql_Process sample_lib sample_config three_rcpt_mail TaskSaveMail
                 (snd (prepareInsertQuery sample_lib sample_config 2 (fresh_state 50)))))))
            = Returned s)"
proof -
  have h1: "(1::int) \<le> 2" by simp
  have h2: "(2::int) \<le> int (length (cache (fresh_state 50)))"
    by (simp add: fresh_state_def)
  have h3: "cache (fresh_state 50) ! nat (2 - 1) = None"
    by (simp add: fresh_state_def)
  have h4: "prepare_error sample_lib (db (fresh_state 50))
              (insert_sql (MysqlTable sample_config) 2) = None"
    by (simp add: sample_lib_def accept_all_def)
  from prepareInsertQuery_compiles_once [OF h1 h2 h3 h4]
  obtain s st1 where p: "prepareInsertQuery sample_lib sample_config 2 (fresh_state 50) = (Returned s, st1)"
    and a: "\<forall>st2 l' cfg'. later st1 st2 \<longrightarrow> prepareInsertQuery l' cfg' 2 st2 = (Returned s, st2)"
    by blast
  have "later st1 (snd (snd (MySql_Process sample_lib sample_config three_rcpt_mail TaskSaveMail st1)))"
    by (rule later_Process [OF later_now])
  with a have "fst (prepareInsertQuery failing_lib sample_config 2
      (snd (snd (MySql_Process sample_lib sample_config three_rcpt_mail TaskSaveMail st1)))) = Returned s"
    by simp
  with p h1 h2 h3 h4 show ?thesis by simp
qed

subsection \<open>C7: the first failing insert ends the save task\<close>

text \<open>
  C7: in a save task, when the inserts for the recipients before \<open>rcpt\<close> have succeeded
  and the store reports an error for the insert of \<open>rcpt\<close>, \<^verbatim>\<open>doQuery\<close> returns that
  error and the task returns the result \<^verbatim>\<open>554 Error: could not save email\<close> with
  \<^verbatim>\<open>StorageError\<close>, without forwarding. The state it leaves is the one right after the
  failed insert, whose \<^verbatim>\<open>Exec\<close> is the last the store has seen: no insert is attempted
  for the recipients after \<open>rcpt\<close>.
\<close>

theorem save_stops_at_insert_error:
  assumes "RcptTo e = pre @ rcpt # rest"
    and "body_mode e = Returned (body, co)"
    and "save_rcpts l cfg e (first_hash e) body co pre st = (Returned Forward, st1)"
    and "row_values l cfg e (first_hash e) body co rcpt = Returned vals"
    and "prepareInsertQuery l cfg 1 st1 = (Returned s, st2)"
    and "exec_result l (db st2) s vals = ExecErr err"
  shows "fst (doQuery l cfg 1 s vals st2) = Returned (Some err)
     \<and> MySql_Process l cfg e TaskSaveMail st =
         (Returned (Reply (NewResult ''554 Error: could not save email'') StorageError),
          set_QueuedId e,
          st2\<lparr>db := (db st2)\<lparr>exec_calls := exec_calls (db st2) @ [(s, vals)]\<rparr>,
              log := log st2 @ [LogInsertProblem err]\<rparr>)"
proof -
  have d: "doQuery l cfg 1 s vals st2 =
      (Returned (Some err),
       st2\<lparr>db := (db st2)\<lparr>exec_calls := exec_calls (db st2) @ [(s, vals)]\<rparr>,
           log := log st2 @ [LogInsertProblem err]\<rparr>)"
    using doQuery_after_prepare [OF assms(5), of s vals] assms(6) by simp
  show ?thesis
    using save_task_at_rcpt [OF assms(1-5)] d by simp
qed

theorem save_stops_at_insert_error_witness:
  "fst (MySql_Process second_fails_lib sample_config three_rcpt_mail TaskSaveMail (fresh_state 50))
     = Returned (Reply (NewResult ''554 Error: could not save email'') StorageError)
   \<and> map (\<lambda>(s, vals). vals ! 7)
        (exec_calls (db (snd (snd (MySql_Process second_fails_lib sample_config three_rcpt_mail
           TaskSaveMail (fresh_state 50))))))
     = [VString ''alice@example.com'', VString ''bob@example.com'']"
proof -
  define hash where "hash = ''5d41402abc4b2a76b9719d911017c592''"
  define vals where "vals =
       [VString ''bob@example.com'', VString ''bob@example.com'', VString ''hi'', VString [],
        VString ''Delivered-To: alice@example.com; hello'',
        VString ''5d41402abc4b2a76b9719d911017c592'', VString [],
        VString ''bob@example.com'', VBytes [192, 168, 1, 1], VString ''bob@example.com'',
        VBool False, VString ''5d41402abc4b2a76b9719d911017c592.bob@mail.example.com'',
        VString [], VString []]"
  define st1 where "st1 = snd (save_rcpts second_fails_lib sample_config three_rcpt_mail
      (first_hash three_rcpt_mail) [] None [alice] (fresh_state 50))"
  have a1: "RcptTo three_rcpt_mail = [alice] @ bob # [carol]"
    by (simp add: three_rcpt_mail_def)
  have a2: "body_mode three_rcpt_mail = Returned ([], None)"
    by (simp add: three_rcpt_mail_def hashed_mail_def plain_mail_def body_mode_def exit_bind_def)
  have a3: "save_rcpts second_fails_lib sample_config three_rcpt_mail (first_hash three_rcpt_mail)
              [] None [alice] (fresh_state 50) = (Returned Forward, st1)"
    unfolding st1_def by (simp add: sample_defs run_defs Bytes.simps)
  have a4: "row_values second_fails_lib sample_config three_rcpt_mail (first_hash three_rcpt_mail)
              [] None bob = Returned vals"
    unfolding vals_def by (simp add: sample_defs run_defs Bytes.simps)
  have e1: "map (\<lambda>(s, vals). vals ! 7) (exec_calls (db st1)) = [VString ''alice@example.com'']"
    unfolding st1_def by (simp add: sample_defs run_defs Bytes.simps)
  have a5: "prepareInsertQuery second_fails_lib sample_config 1 st1 = (Returned 0, st1)"
    unfolding st1_def by (simp add: sample_defs run_defs Bytes.simps)
  have a6: "exec_result second_fails_lib (db st1) 0 vals
              = ExecErr ''Error 2006: MySQL server has gone away''"
    unfolding st1_def by (simp add: sample_defs run_defs Bytes.simps)
  show ?thesis
    using save_stops_at_insert_error [OF a1 a2 a3 a4 a5 a6] e1
    by (simp add: vals_def)
qed

subsection \<open>C8: the body-mode marker and the mail blob\<close>

text \<open>
  C8: in a row of a save task, column 3 is the marker and column 4 the mail blob. With
  the \<^verbatim>\<open>redis\<close> key in \<^verbatim>\<open>e.Values\<close> the marker is \<^verbatim>\<open>redis\<close> and the blob is empty, also
  when a compressor is attached; else with a compressor attached the marker is \<^verbatim>\<open>gzip\<close>
  and the blob is what the compressor renders; else the marker is empty and the blob is
  the rendered message.
\<close>

theorem body_mode_priority:
  assumes "body_mode e = Returned (body, co)"
    and "row_values l cfg e hash body co rcpt = Returned vals"
  shows "(Values e ''redis'' \<noteq> None \<longrightarrow> vals ! 3 = VString ''redis'' \<and> vals ! 4 = VString [])
     \<and> (Values e ''redis'' = None \<and> Values e ''zlib-compressor'' = Some (CompressorPtr (Some c))
          \<longrightarrow> vals ! 3 = VString ''gzip'' \<and> vals ! 4 = VString c)
     \<and> (Values e ''redis'' = None \<and> Values e ''zlib-compressor'' = None
          \<longrightarrow> vals ! 3 = VString [] \<and> vals ! 4 = VString (Envelope_String e))"
  using assms(1) row_values_mode [OF assms(2)]
  by (auto simp: body_mode_def exit_bind_def split: option.splits any.splits)

theorem body_mode_priority_witness:
  "body_mode redis_mail = Returned (''redis'', Some ''x-compressed'')
   \<and> Values redis_mail ''redis'' \<noteq> None
   \<and> Values redis_mail ''zlib-compressor'' = Some (CompressorPtr (Some ''x-compressed''))
   \<and> map (\<lambda>(s, vals). (vals ! 3, vals ! 4))
        (exec_calls (db (snd (snd (MySql_Process sample_lib sample_config redis_mail TaskSaveMail
           (fresh_state 50))))))
      = [(VString ''redis'', VString [])]
   \<and> body_mode gzip_mail = Returned (''gzip'', Some ''x-compressed'')
   \<and> map (\<lambda>(s, vals). (vals ! 3, vals ! 4))
        (exec_calls (db (snd (snd (MySql_Process sample_lib sample_config gzip_mail TaskSaveMail
           (fresh_state 50))))))
      = [(VString ''gzip'', VString ''x-compressed'')]
   \<and> body_mode hashed_mail = Returned ([], None)
   \<and> map (\<lambda>(s, vals). (vals ! 3, vals ! 4))
        (exec_calls (db (snd (snd (MySql_Process sample_lib sample_config hashed_mail TaskSaveMail
           (fresh_state 50))))))
      = [(VString [], VString ''Delivered-To: alice@example.com; hello'')]"
proof -
  define hash where "hash = ''5d41402abc4b2a76b9719d911017c592''"
  define row where "row = (\<lambda>body blob.
       [VString ''alice@example.com'', VString ''bob@example.com'', VString ''hi'', VString body,
        VString blob, VString hash, VString [],
        VString ''alice@example.com'', VBytes [192, 168, 1, 1], VString ''bob@example.com'',
        VBool False, VString (hash @ ''.alice@mail.example.com''),
        VString [], VString []])"
  have m1: "body_mode redis_mail = Returned (''redis'', Some ''x-compressed'')"
    by (simp add: redis_mail_def body_mode_def exit_bind_def)
  have m2: "body_mode gzip_mail = Returned (''gzip'', Some ''x-compressed'')"
    by (simp add: gzip_mail_def body_mode_def exit_bind_def)
  have m3: "body_mode hashed_mail = Returned ([], None)"
    by (simp add: hashed_mail_def plain_mail_def body_mode_def exit_bind_def)
  have r1: "row_values sample_lib sample_config redis_mail hash ''redis'' (Some ''x-compressed'') alice
              = Returned (row ''redis'' [])"
    unfolding row_def hash_def by (simp add: sample_defs run_defs Bytes.simps)
  have r2: "row_values sample_lib sample_config gzip_mail hash ''gzip'' (Some ''x-compressed'') alice
              = Returned (row ''gzip'' ''x-compressed'')"
    unfolding row_def hash_def by (simp add: sample_defs run_defs Bytes.simps)
  have r3: "row_values sample_lib sample_config hashed_mail hash [] None alice
              = Returned (row [] ''Delivered-To: alice@example.com; hello'')"
    unfolding row_def hash_def by (simp add: sample_defs run_defs Bytes.simps)
  have x1: "exec_calls (db (snd (snd (MySql_Process sample_lib sample_config redis_mail TaskSaveMail
           (fresh_state 50))))) = [(0, row ''redis'' [])]"
    unfolding row_def hash_def by (simp add: sample_defs run_defs Bytes.simps)
  have x2: "exec_calls (db (snd (snd (MySql_Process sample_lib sample_config gzip_mail TaskSaveMail
           (fresh_state 50))))) = [(0, row ''gzip'' ''x-compressed'')]"
    unfolding row_def hash_def by (simp add: sample_defs run_defs Bytes.simps)
  have x3: "exec_calls (db (snd (snd (MySql_Process sample_lib sample_config hashed_mail TaskSaveMail
           (fresh_state 50))))) = [(0, row [] ''Delivered-To: alice@example.com; hello'')]"
    unfolding row_def hash_def by (simp add: sample_defs run_defs Bytes.simps)
  have v: "Values redis_mail ''redis'' \<noteq> None"
      "Values redis_mail ''zlib-compressor'' = Some (CompressorPtr (Some ''x-compressed''))"
      "Values gzip_mail ''redis'' = None"
      "Values gzip_mail ''zlib-compressor'' = Some (CompressorPtr (Some ''x-compressed''))"
      "Values hashed_mail ''redis'' = None" "Values hashed_mail ''zlib-compressor'' = None"
    by (simp_all add: redis_mail_def gzip_mail_def hashed_mail_def plain_mail_def)
  have es: "Envelope_String hashed_mail = ''Delivered-To: alice@example.com; hello''"
    by (simp add: Envelope_String_def hashed_mail_def plain_mail_def)
  show ?thesis
    using body_mode_priority [OF m1 r1, of "''x''"] body_mode_priority [OF m2 r2, of "''x-compressed''"]
      body_mode_priority [OF m3 r3, of "''x''"] m1 m2 m3 x1 x2 x3 v es
    by simp
qed

subsection \<open>C9: validating a recipient\<close>

text \<open>
  C9: a validate-recipient task on an envelope with at least one recipient looks at the
  last recipient only. If its local part has more than 255 characters the task returns the
  canned rejection with \<^verbatim>\<open>NoSuchUser\<close> and does not forward; otherwise it forwards. In
  both cases the envelope and the state (the cache, the store and the log) are unchanged,
  so no insert is made.
\<close>

theorem validate_rcpt_inspects_last:
  assumes "RcptTo e = rcpts @ [lst]"
  shows "MySql_Process l cfg e TaskValidateRcpt st =
     (if length (User lst) > 255
      then (Returned (Reply (NewResult (FailRcptCmd l)) NoSuchUser), e, st)
      else (Returned Forward, e, st))"
  using assms by (simp add: MySql_Process_def)

theorem validate_rcpt_inspects_last_witness:
  "MySql_Process sample_lib sample_config (plain_mail\<lparr>RcptTo := [alice] @ [long_user 256]\<rparr>)
      TaskValidateRcpt (fresh_state 50) =
     (Returned (Reply (NewResult ''550 Error: no such user'') NoSuchUser),
      plain_mail\<lparr>RcptTo := [alice] @ [long_user 256]\<rparr>, fresh_state 50)
   \<and> MySql_Process sample_lib sample_config (plain_mail\<lparr>RcptTo := [long_user 256] @ [long_user 255]\<rparr>)
      TaskValidateRcpt (fresh_state 50) =
     (Returned Forward, plain_mail\<lparr>RcptTo := [long_user 256] @ [long_user 255]\<rparr>, fresh_state 50)"
  using validate_rcpt_inspects_last [of "plain_mail\<lparr>RcptTo := [alice] @ [long_user 256]\<rparr>"
          "[alice]" "long_user 256" sample_lib sample_config "fresh_state 50"]
        validate_rcpt_inspects_last [of "plain_mail\<lparr>RcptTo := [long_user 256] @ [long_user 255]\<rparr>"
          "[long_user 256]" "long_user 255" sample_lib sample_config "fresh_state 50"]
  by (simp add: long_user_def sample_lib_def)

subsection \<open>C10: a header that does not parse\<close>

text \<open>
  C10: when one of the headers \<^verbatim>\<open>Message-Id\<close>, \<^verbatim>\<open>To\<close>, \<^verbatim>\<open>Reply-To\<close>, \<^verbatim>\<open>Sender\<close> is
  present and its first value does not parse as an address, \<^verbatim>\<open>fillAddressFromHeader\<close>
  returns the empty string, as it does with the header removed, and the row of every
  recipient is the row of the envelope with the header removed: the to-address is the
  recipient, the message id is the synthesized one, reply-to and sender are empty.
\<close>

theorem unparsable_header_as_absent:
  assumes "k \<in> {''Message-Id'', ''To'', ''Reply-To'', ''Sender''}"
    and "Header e k = Some (v # vs)" and "NewAddress l v = None"
  shows "fillAddressFromHeader l e k = Returned []
     \<and> fillAddressFromHeader l (e\<lparr>Header := (Header e)(k := None)\<rparr>) k = Returned []
     \<and> row_values l cfg e hash body co rcpt =
         row_values l cfg (e\<lparr>Header := (Header e)(k := None)\<rparr>) hash body co rcpt
     \<and> (row_values l cfg e hash body co rcpt = Returned vals \<longrightarrow>
          (k = ''To'' \<longrightarrow> vals ! 0 = VString (trimToLimit (TrimSpace (Address_String l rcpt)) 255))
        \<and> (k = ''Message-Id'' \<longrightarrow>
              vals ! 11 = VString (Sprintf_mid hash (User rcpt) (PrimaryHost cfg)))
        \<and> (k = ''Reply-To'' \<longrightarrow> vals ! 12 = VString [])
        \<and> (k = ''Sender'' \<longrightarrow> vals ! 13 = VString []))"
proof (intro conjI impI)
  show f: "fillAddressFromHeader l e k = Returned []"
    using assms(2,3) by (rule fill_unparsable)
  show "fillAddressFromHeader l (e\<lparr>Header := (Header e)(k := None)\<rparr>) k = Returned []"
    by (rule fill_removed)
  show "row_values l cfg e hash body co rcpt =
         row_values l cfg (e\<lparr>Header := (Header e)(k := None)\<rparr>) hash body co rcpt"
    using assms by (rule row_values_unparsable)
  {
    assume r: "row_values l cfg e hash body co rcpt = Returned vals"
    note c = row_values_columns [OF r]
    {
      assume "k = ''To''"
      with f c show "vals ! 0 = VString (trimToLimit (TrimSpace (Address_String l rcpt)) 255)"
        by simp
    }
    {
      assume "k = ''Message-Id''"
      with f c show "vals ! 11 = VString (Sprintf_mid hash (User rcpt) (PrimaryHost cfg))"
        by simp
    }
    {
      assume "k = ''Reply-To''"
      with f c show "vals ! 12 = VString []"
        by simp
    }
    {
      assume "k = ''Sender''"
      with f c show "vals ! 13 = VString []"
        by simp
    }
  }
qed

theorem unparsable_header_as_absent_witness:
  "row_values sample_lib sample_config bad_headers_mail (first_hash bad_headers_mail) [] None alice =
   row_values sample_lib sample_config hashed_mail (first_hash hashed_mail) [] None alice
   \<and> row_values sample_lib sample_config bad_headers_mail (first_hash bad_headers_mail) [] None alice =
     Returned
       [VString ''alice@example.com'', VString ''bob@example.com'', VString ''hi'', VString [],
        VString ''Delivered-To: alice@example.com; hello'',
        VString ''5d41402abc4b2a76b9719d911017c592'', VString [],
        VString ''alice@example.com'', VBytes [192, 168, 1, 1], VString ''bob@example.com'',
        VBool False, VString ''5d41402abc4b2a76b9719d911017c592.alice@mail.example.com'',
        VString [], VString []]
   \<and> fillAddressFromHeader sample_lib bad_headers_mail ''To'' = Returned []
   \<and> fillAddressFromHeader sample_lib bad_headers_mail ''Message-Id'' = Returned []
   \<and> fillAddressFromHeader sample_lib bad_headers_mail ''Reply-To'' = Returned []
   \<and> fillAddressFromHeader sample_lib bad_headers_mail ''Sender'' = Returned []"
proof -
  define vals where "vals =
       [VString ''alice@example.com'', VString ''bob@example.com'', VString ''hi'', VString [],
        VString ''Delivered-To: alice@example.com; hello'',
        VString ''5d41402abc4b2a76b9719d911017c592'', VString [],
        VString ''alice@example.com'', VBytes [192, 168, 1, 1], VString ''bob@example.com'',
        VBool False, VString ''5d41402abc4b2a76b9719d911017c592.alice@mail.example.com'',
        VString [], VString []]"
  define hash where "hash = first_hash bad_headers_mail"
  have k: "''To'' \<in> {''Message-Id'', ''To'', ''Reply-To'', ''Sender''}"
      "''Message-Id'' \<in> {''Message-Id'', ''To'', ''Reply-To'', ''Sender''}"
      "''Reply-To'' \<in> {''Message-Id'', ''To'', ''Reply-To'', ''Sender''}"
      "''Sender'' \<in> {''Message-Id'', ''To'', ''Reply-To'', ''Sender''}"
    by simp_all
  have h: "Header bad_headers_mail ''To'' = Some (''undisclosed-recipients:;'' # [])"
      "Header bad_headers_mail ''Message-Id'' = Some (''no-at-sign'' # [])"
      "Header bad_headers_mail ''Reply-To'' = Some (''nobody'' # [])"
      "Header bad_headers_mail ''Sender'' = Some (''@'' # [])"
    by (simp_all add: bad_headers_mail_def)
  have n: "NewAddress sample_lib ''undisclosed-recipients:;'' = None"
      "NewAddress sample_lib ''no-at-sign'' = None"
      "NewAddress sample_lib ''nobody'' = None"
      "NewAddress sample_lib ''@'' = None"
    by (simp_all add: sample_lib_def sample_NewAddress_def Index_def)
  have r: "row_values sample_lib sample_config bad_headers_mail hash [] None alice = Returned vals"
    unfolding vals_def hash_def by (simp add: sample_defs run_defs Bytes.simps)
  have r0: "row_values sample_lib sample_config hashed_mail (first_hash hashed_mail) [] None alice
      = Returned vals"
    unfolding vals_def by (simp add: sample_defs run_defs Bytes.simps)
  show ?thesis
    using unparsable_header_as_absent [OF k(1) h(1) n(1), of sample_config hash "[]" None alice vals]
      unparsable_header_as_absent [OF k(2) h(2) n(2), of sample_config hash "[]" None alice vals]
      unparsable_header_as_absent [OF k(3) h(3) n(3), of sample_config hash "[]" None alice vals]
      unparsable_header_as_absent [OF k(4) h(4) n(4), of sample_config hash "[]" None alice vals]
      r r0
    by (simp add: vals_def hash_def)
qed

end
